theory Spec2Isabelle
  imports Complex_Main "HOL-Library.Sublist" "HOL-Library.Word"
begin

unbundle bit_operations_syntax

section \<open>Strings\<close>

text \<open>
  The switch is driven by three copies of the same logic: the embedded library
  (class GS308EP, Arduino \<^verbatim>\<open>String\<close>), the command line tool (class GS308EP_CLI,
  \<^verbatim>\<open>std::string\<close>) and the test harness (class GS308EPTest, whose \<^verbatim>\<open>String\<close> wraps
  \<^verbatim>\<open>std::string\<close>). A text is a list of bytes; a position is a \<open>nat\<close>, and the
  "not found" results \<^verbatim>\<open>std::string::npos\<close> and \<^verbatim>\<open>-1\<close> are \<open>None\<close>.
\<close>

abbreviation dq :: char where "dq \<equiv> CHR 0x22"
abbreviation sq :: char where "sq \<equiv> CHR 0x27"
abbreviation CR :: char where "CR \<equiv> CHR 0x0D"
abbreviation LF :: char where "LF \<equiv> CHR 0x0A"

text \<open>\<open>scan pat cs i\<close>: the first position, counted from \<open>i\<close> at the head of \<open>cs\<close>,
  where \<open>pat\<close> starts.\<close>

primrec scan :: "string \<Rightarrow> string \<Rightarrow> nat \<Rightarrow> nat option" where
  "scan pat [] i = (if pat = [] then Some i else None)"
| "scan pat (c # cs) i = (if prefix pat (c # cs) then Some i else scan pat cs (Suc i))"

text \<open>\<^verbatim>\<open>s.find(pat, pos)\<close> of \<^verbatim>\<open>std::string\<close>: the lowest position at or after \<open>pos\<close>
  where \<open>pat\<close> occurs, \<^verbatim>\<open>npos\<close> when there is none or \<open>pos\<close> is past the end.\<close>

definition str_find :: "string \<Rightarrow> string \<Rightarrow> nat \<Rightarrow> nat option" where
  "str_find s pat pos = (if length s < pos then None else scan pat (drop pos s) pos)"

text \<open>\<^verbatim>\<open>s.substr(pos, n)\<close>. Every call of the sources has \<open>pos \<le> length s\<close> (the
  position comes from a successful \<^verbatim>\<open>find\<close>), so \<^verbatim>\<open>std::out_of_range\<close> is never
  thrown.\<close>

definition substr :: "string \<Rightarrow> nat \<Rightarrow> nat \<Rightarrow> string" where
  "substr s pos n = take n (drop pos s)"

text \<open>The \<^verbatim>\<open>String\<close> class of the test harness (and of the Arduino core, which it
  mirrors): \<^verbatim>\<open>indexOf(pat, start)\<close> answers \<^verbatim>\<open>-1\<close> when \<open>start\<close> is at or past the
  end; \<^verbatim>\<open>substring(start, end)\<close> is empty when \<open>start\<close> is at or past the end and
  clips \<open>end\<close> to the length.\<close>

definition indexOf :: "string \<Rightarrow> string \<Rightarrow> nat \<Rightarrow> nat option" where
  "indexOf s pat start = (if length s \<le> start then None else str_find s pat start)"

definition substring :: "string \<Rightarrow> nat \<Rightarrow> nat \<Rightarrow> string" where
  "substring s start end =
     (if length s \<le> start then []
      else substr s start ((if length s < end then length s else end) - start))"

text \<open>Methods of the Arduino \<^verbatim>\<open>String\<close> that the library calls and the repository does
  not define: \<^verbatim>\<open>lastIndexOf(pat)\<close> is the highest position where \<open>pat\<close> occurs,
  \<^verbatim>\<open>trim()\<close> removes white space at both ends, \<^verbatim>\<open>startsWith(pat)\<close> tests a prefix.\<close>

primrec scan_last :: "string \<Rightarrow> string \<Rightarrow> nat \<Rightarrow> nat option \<Rightarrow> nat option" where
  "scan_last pat [] i found = found"
| "scan_last pat (c # cs) i found =
     scan_last pat cs (Suc i) (if prefix pat (c # cs) then Some i else found)"

definition lastIndexOf :: "string \<Rightarrow> string \<Rightarrow> nat option" where
  "lastIndexOf s pat =
     (if pat = [] \<or> s = [] \<or> length s < length pat then None else scan_last pat s 0 None)"

definition isspace :: "char \<Rightarrow> bool" where
  "isspace c = (c \<in> set [CHR '' '', CHR 0x09, LF, CHR 0x0B, CHR 0x0C, CR])"

definition trim :: "string \<Rightarrow> string" where
  "trim s = rev (dropWhile isspace (rev (dropWhile isspace s)))"

definition startsWith :: "string \<Rightarrow> string \<Rightarrow> bool" where
  "startsWith s pat = prefix pat s"

text \<open>\<^verbatim>\<open>std::to_string(int)\<close> and \<^verbatim>\<open>String(int)\<close>: the decimal numeral.\<close>

definition digit_char :: "nat \<Rightarrow> char" where
  "digit_char d = ''0123456789'' ! d"

fun nat_to_string :: "nat \<Rightarrow> string" where
  "nat_to_string n =
     (if n < 10 then [digit_char n] else nat_to_string (n div 10) @ [digit_char (n mod 10)])"

declare nat_to_string.simps [simp del]

definition to_string :: "int \<Rightarrow> string" where
  "to_string i = (if i < 0 then CHR ''-'' # nat_to_string (nat (- i)) else nat_to_string (nat i))"

section \<open>MD5\<close>

text \<open>
  \<^verbatim>\<open>md5Hash\<close> hands its input to the MD5 of OpenSSL (the tool, the test harness) or of
  \<^verbatim>\<open>MD5Builder\<close> (the library) and prints the 16 bytes of the digest as 32 lower-case
  hexadecimal digits. MD5 itself is modelled after RFC 1321: the message is padded to a
  multiple of 64 bytes, and every block of sixteen little-endian 32-bit words goes
  through 64 steps on a state of four 32-bit words, in arithmetic modulo \<open>2 ^ 32\<close>.
\<close>

definition md5_K :: "32 word list" where
  "md5_K =
     [0xd76aa478, 0xe8c7b756, 0x242070db, 0xc1bdceee, 0xf57c0faf, 0x4787c62a,
      0xa8304613, 0xfd469501, 0x698098d8, 0x8b44f7af, 0xffff5bb1, 0x895cd7be,
      0x6b901122, 0xfd987193, 0xa679438e, 0x49b40821, 0xf61e2562, 0xc040b340,
      0x265e5a51, 0xe9b6c7aa, 0xd62f105d, 0x02441453, 0xd8a1e681, 0xe7d3fbc8,
      0x21e1cde6, 0xc33707d6, 0xf4d50d87, 0x455a14ed, 0xa9e3e905, 0xfcefa3f8,
      0x676f02d9, 0x8d2a4c8a, 0xfffa3942, 0x8771f681, 0x6d9d6122, 0xfde5380c,
      0xa4beea44, 0x4bdecfa9, 0xf6bb4b60, 0xbebfbc70, 0x289b7ec6, 0xeaa127fa,
      0xd4ef3085, 0x04881d05, 0xd9d4d039, 0xe6db99e5, 0x1fa27cf8, 0xc4ac5665,
      0xf4292244, 0x432aff97, 0xab9423a7, 0xfc93a039, 0x655b59c3, 0x8f0ccc92,
      0xffeff47d, 0x85845dd1, 0x6fa87e4f, 0xfe2ce6e0, 0xa3014314, 0x4e0811a1,
      0xf7537e82, 0xbd3af235, 0x2ad7d2bb, 0xeb86d391]"

definition md5_S :: "nat list" where
  "md5_S =
     [7, 12, 17, 22, 7, 12, 17, 22, 7, 12, 17, 22, 7, 12, 17, 22,
      5, 9, 14, 20, 5, 9, 14, 20, 5, 9, 14, 20, 5, 9, 14, 20,
      4, 11, 16, 23, 4, 11, 16, 23, 4, 11, 16, 23, 4, 11, 16, 23,
      6, 10, 15, 21, 6, 10, 15, 21, 6, 10, 15, 21, 6, 10, 15, 21]"

type_synonym md5_state = "32 word \<times> 32 word \<times> 32 word \<times> 32 word"

definition md5_step :: "32 word list \<Rightarrow> md5_state \<Rightarrow> nat \<Rightarrow> md5_state" where
  "md5_step m st i =
     (case st of (a, b, c, d) \<Rightarrow>
        (let (f, g) =
               (if i < 16 then ((b AND c) OR (NOT b AND d), i)
                else if i < 32 then ((d AND b) OR (NOT d AND c), (5 * i + 1) mod 16)
                else if i < 48 then (b XOR c XOR d, (3 * i + 5) mod 16)
                else (c XOR (b OR NOT d), (7 * i) mod 16));
             f' = f + a + md5_K ! i + m ! g
         in (d, b + word_rotl (md5_S ! i) f', b, c)))"

definition md5_block :: "md5_state \<Rightarrow> 32 word list \<Rightarrow> md5_state" where
  "md5_block st m =
     (case st of (a0, b0, c0, d0) \<Rightarrow>
        (case foldl (md5_step m) st [0..<64] of (a, b, c, d) \<Rightarrow>
           (a0 + a, b0 + b, c0 + c, d0 + d)))"

definition le_bytes :: "nat \<Rightarrow> 64 word \<Rightarrow> 8 word list" where
  "le_bytes n v = map (\<lambda>k. ucast (drop_bit (8 * k) v)) [0..<n]"

definition md5_pad :: "8 word list \<Rightarrow> 8 word list" where
  "md5_pad bs =
     bs @ [0x80] @ replicate ((119 - length bs mod 64) mod 64) 0 @
     le_bytes 8 (8 * of_nat (length bs))"

fun le_words :: "8 word list \<Rightarrow> 32 word list" where
  "le_words (b0 # b1 # b2 # b3 # bs) =
     (ucast b0 OR push_bit 8 (ucast b1) OR push_bit 16 (ucast b2) OR push_bit 24 (ucast b3))
     # le_words bs"
| "le_words bs = []"

fun md5_blocks :: "md5_state \<Rightarrow> 32 word list \<Rightarrow> md5_state" where
  "md5_blocks st ws =
     (if length ws < 16 then st else md5_blocks (md5_block st (take 16 ws)) (drop 16 ws))"

declare md5_blocks.simps [simp del]

definition hex_byte :: "8 word \<Rightarrow> string" where
  "hex_byte b =
     [''0123456789abcdef'' ! unat (drop_bit 4 b), ''0123456789abcdef'' ! unat (b AND 0x0F)]"

definition md5Hash :: "string \<Rightarrow> string" where
  "md5Hash input =
     (case md5_blocks (0x67452301, 0xefcdab89, 0x98badcfe, 0x10325476)
             (le_words (md5_pad (map of_char input))) of
        (a, b, c, d) \<Rightarrow>
          concat (map hex_byte (concat (map (\<lambda>w. le_bytes 4 (ucast w)) [a, b, c, d]))))"

definition mergeHash :: "string \<Rightarrow> string \<Rightarrow> string" where
  "mergeHash pw rand = md5Hash (pw @ rand)"

section \<open>The command line tool: extractors\<close>

text \<open>\<^verbatim>\<open>GS308EP_CLI::extractRand\<close>. The empty string is the "not found" result.\<close>

definition GS308EP_CLI_extractRand :: "string \<Rightarrow> string" where
  "GS308EP_CLI_extractRand html =
     (case (case str_find html (''name='' @ [dq] @ ''rand'' @ [dq]) 0 of
              None \<Rightarrow> str_find html (''name='' @ [sq] @ ''rand'' @ [sq]) 0
            | Some p \<Rightarrow> Some p) of
        None \<Rightarrow> []
      | Some pos \<Rightarrow>
         (case str_find html ''value'' pos of
            None \<Rightarrow> []
          | Some valuePos \<Rightarrow>
             (let quotePos = str_find html [dq] valuePos;
                  singleQuotePos = str_find html [sq] valuePos
              in if quotePos = None \<and> singleQuotePos = None then []
                 else
                   (let startPos =
                          (if quotePos \<noteq> None \<and>
                              (singleQuotePos = None \<or> the quotePos < the singleQuotePos)
                           then quotePos else singleQuotePos);
                        quoteChar = (if startPos = quotePos then dq else sq);
                        startPos' = the startPos + 1
                    in case str_find html [quoteChar] startPos' of
                         None \<Rightarrow> []
                       | Some endPos \<Rightarrow> substr html startPos' (endPos - startPos')))))"

section \<open>The embedded library: extractors\<close>

text \<open>\<^verbatim>\<open>GS308EP::extractRand\<close>: it looks for \<^verbatim>\<open>id="rand"\<close>, and for both the opening
  and the closing quote it tries the single quote first and the double quote only when
  no single quote follows at all.\<close>

definition GS308EP_extractRand :: "string \<Rightarrow> string" where
  "GS308EP_extractRand html =
     (case (case indexOf html (''id='' @ [dq] @ ''rand'' @ [dq]) 0 of
              None \<Rightarrow> indexOf html (''id='' @ [sq] @ ''rand'' @ [sq]) 0
            | Some p \<Rightarrow> Some p) of
        None \<Rightarrow> []
      | Some randIndex \<Rightarrow>
         (case indexOf html ''value'' randIndex of
            None \<Rightarrow> []
          | Some valueIndex \<Rightarrow>
             (case (case indexOf html [sq] valueIndex of
                      None \<Rightarrow> indexOf html [dq] valueIndex
                    | Some p \<Rightarrow> Some p) of
                None \<Rightarrow> []
              | Some startQuote0 \<Rightarrow>
                 (let startQuote = startQuote0 + 1
                  in case (case indexOf html [sq] startQuote of
                             None \<Rightarrow> indexOf html [dq] startQuote
                           | Some p \<Rightarrow> Some p) of
                       None \<Rightarrow> []
                     | Some endQuote \<Rightarrow> substring html startQuote endQuote))))"


section \<open>The transport and the session state\<close>

text \<open>
  The HTTP transport (libcurl for the tool, \<^verbatim>\<open>HTTPClient\<close> for the library) is outside
  the repository. It is modelled as a script: \<open>pending\<close> holds the answers the switch
  will give, in order, and an exhausted script is a transport failure. \<open>trace\<close> records
  what the program did: each exchange with its request and its answer, each line written
  to the standard streams, each sleep. \<^verbatim>\<open>curl_easy_init\<close> is taken to return a handle.
\<close>

datatype http_method = GET | POST

datatype reply = TransportError | Reply int string string

datatype event =
    Exchange http_method string string "string option" reply
  | Log string
  | Err string
  | Out string
  | Usleep int
  | Delay nat

record world =
  pending :: "reply list"
  trace :: "event list"

definition emit :: "event \<Rightarrow> 'a world_scheme \<Rightarrow> 'a world_scheme" where
  "emit e w = w\<lparr>trace := trace w @ [e]\<rparr>"

definition transport ::
  "http_method \<Rightarrow> string \<Rightarrow> string \<Rightarrow> string option \<Rightarrow> 'a world_scheme
    \<Rightarrow> reply \<times> 'a world_scheme" where
  "transport m url data cookie w =
     (case pending w of
        [] \<Rightarrow> (TransportError, emit (Exchange m url data cookie TransportError) w)
      | r # rs \<Rightarrow> (r, emit (Exchange m url data cookie r) (w\<lparr>pending := rs\<rparr>)))"

text \<open>The events a call added, and the statuses of the answers to its POST requests.\<close>

definition new_events :: "'a world_scheme \<Rightarrow> 'b world_scheme \<Rightarrow> event list" where
  "new_events w w' = drop (length (trace w)) (trace w')"

fun post_statuses :: "event list \<Rightarrow> int list" where
  "post_statuses [] = []"
| "post_statuses (Exchange POST url data cookie (Reply code hdrs bdy) # es) =
     code # post_statuses es"
| "post_statuses (e # es) = post_statuses es"

fun exchanges :: "event list \<Rightarrow> event list" where
  "exchanges [] = []"
| "exchanges (Exchange m url data cookie r # es) = Exchange m url data cookie r # exchanges es"
| "exchanges (e # es) = exchanges es"

text \<open>The private members of the two classes. An Isabelle name cannot end or start with
  an underscore: \<^verbatim>\<open>host_\<close>, \<^verbatim>\<open>password_\<close>, \<^verbatim>\<open>authenticated_\<close> of the tool are \<open>host\<close>,
  \<open>cli_password\<close>, \<open>cli_authenticated\<close>, and \<^verbatim>\<open>_cookieSID\<close> of the library is \<open>cookieSID\<close>.\<close>

record cli = world +
  host :: string
  cli_password :: string
  cookie_sid :: string
  client_hash :: string
  cli_authenticated :: bool
  verbose :: bool
  last_response_code :: int

record gs308ep = world +
  ip :: string
  password :: string
  cookieSID :: string
  clientHash :: string
  authenticated :: bool
  lastResponseCode :: int

section \<open>The command line tool\<close>

definition LOGIN_URL :: string where "LOGIN_URL = ''/login.cgi''"
definition POE_CONFIG_URL :: string where "POE_CONFIG_URL = ''/PoEPortConfig.cgi''"

definition log :: "string \<Rightarrow> cli \<Rightarrow> cli" where
  "log message s = (if verbose s then emit (Log (''[INFO] '' @ message)) s else s)"

definition error :: "string \<Rightarrow> cli \<Rightarrow> cli" where
  "error message s = emit (Err (''[ERROR] '' @ message)) s"

definition outputJSON :: "string \<Rightarrow> cli \<Rightarrow> cli" where
  "outputJSON json s = emit (Out json) s"

text \<open>\<^verbatim>\<open>GS308EP_CLI::extractCookie\<close>: the end of the value is looked for in a fixed
  order, a semicolon anywhere after the \<^verbatim>\<open>=\<close> first.\<close>

definition GS308EP_CLI_extractCookie :: "string \<Rightarrow> string" where
  "GS308EP_CLI_extractCookie headers =
     (case str_find headers ''SID='' 0 of
        None \<Rightarrow> []
      | Some pos0 \<Rightarrow>
         (let pos = pos0 + 4;
              endPos1 = str_find headers '';'' pos;
              endPos2 = (if endPos1 = None then str_find headers [CR] pos else endPos1);
              endPos3 = (if endPos2 = None then str_find headers [LF] pos else endPos2);
              endPos = (case endPos3 of None \<Rightarrow> length headers | Some e \<Rightarrow> e)
          in substr headers pos (endPos - pos)))"

text \<open>\<^verbatim>\<open>GS308EP_CLI::httpGet\<close> and \<^verbatim>\<open>httpPost\<close>. The text of \<^verbatim>\<open>curl_easy_strerror\<close> is
  left out of the error line, and the body of a failed transfer is taken to be empty.\<close>

definition GS308EP_CLI_httpGet :: "string \<Rightarrow> cli \<Rightarrow> string \<times> cli" where
  "GS308EP_CLI_httpGet path s =
     (let url = ''http://'' @ host s @ path;
          cookie = (if cookie_sid s \<noteq> [] then Some (''SID='' @ cookie_sid s) else None);
          s1 = log (''GET '' @ url) s;
          (r, s2) = transport GET url [] cookie s1
      in case r of
           Reply code hdrs bdy \<Rightarrow>
             (let cookie' = GS308EP_CLI_extractCookie hdrs
              in (bdy, s2\<lparr>last_response_code := code,
                         cookie_sid := (if cookie' \<noteq> [] then cookie' else cookie_sid s2)\<rparr>))
         | TransportError \<Rightarrow>
             ([], (error ''HTTP GET failed: '' s2)\<lparr>last_response_code := 0\<rparr>))"

definition GS308EP_CLI_httpPost :: "string \<Rightarrow> string \<Rightarrow> cli \<Rightarrow> string \<times> cli" where
  "GS308EP_CLI_httpPost path data s =
     (let url = ''http://'' @ host s @ path;
          cookie = (if cookie_sid s \<noteq> [] then Some (''SID='' @ cookie_sid s) else None);
          s1 = log (''POST '' @ url @ '' ['' @ data @ '']'') s;
          (r, s2) = transport POST url data cookie s1
      in case r of
           Reply code hdrs bdy \<Rightarrow>
             (let cookie' = GS308EP_CLI_extractCookie hdrs
              in (bdy, s2\<lparr>last_response_code := code,
                         cookie_sid := (if cookie' \<noteq> [] then cookie' else cookie_sid s2)\<rparr>))
         | TransportError \<Rightarrow>
             ([], (error ''HTTP POST failed: '' s2)\<lparr>last_response_code := 0\<rparr>))"

definition GS308EP_CLI_extractClientHash :: "string \<Rightarrow> cli \<Rightarrow> bool \<times> cli" where
  "GS308EP_CLI_extractClientHash html s =
     (case (case str_find html (''name='' @ [dq] @ ''hash'' @ [dq]) 0 of
              None \<Rightarrow> str_find html (''name='' @ [sq] @ ''hash'' @ [sq]) 0
            | Some p \<Rightarrow> Some p) of
        None \<Rightarrow> (False, s)
      | Some pos \<Rightarrow>
         (case str_find html ''value'' pos of
            None \<Rightarrow> (False, s)
          | Some valuePos \<Rightarrow>
             (let quotePos = str_find html [dq] valuePos;
                  singleQuotePos = str_find html [sq] valuePos
              in if quotePos = None \<and> singleQuotePos = None then (False, s)
                 else
                   (let startPos =
                          (if quotePos \<noteq> None \<and>
                              (singleQuotePos = None \<or> the quotePos < the singleQuotePos)
                           then quotePos else singleQuotePos);
                        quoteChar = (if startPos = quotePos then dq else sq);
                        startPos' = the startPos + 1
                    in case str_find html [quoteChar] startPos' of
                         None \<Rightarrow> (False, s)
                       | Some endPos \<Rightarrow>
                           (let h = substr html startPos' (endPos - startPos')
                            in (h \<noteq> [], s\<lparr>client_hash := h\<rparr>))))))"

definition GS308EP_CLI_login :: "cli \<Rightarrow> bool \<times> cli" where
  "GS308EP_CLI_login s =
     (let (loginPage, s1) = GS308EP_CLI_httpGet LOGIN_URL s
      in if last_response_code s1 \<noteq> 200
         then (False, error ''Failed to fetch login page'' s1)
         else
           (let rand = GS308EP_CLI_extractRand loginPage
            in if rand = [] then (False, error ''Failed to extract rand token'' s1)
               else
                 (let s2 = log (''Rand token: '' @ rand) s1;
                      hash = mergeHash (cli_password s2) rand;
                      s3 = log (''Password hash: '' @ hash) s2;
                      postData = ''password='' @ hash;
                      (response, s4) = GS308EP_CLI_httpPost LOGIN_URL postData s3
                  in if last_response_code s4 \<noteq> 200 \<or> cookie_sid s4 = []
                     then (False, error ''Authentication failed'' s4)
                     else (True, (log (''Session ID: '' @ cookie_sid s4) s4)
                                   \<lparr>cli_authenticated := True\<rparr>))))"

definition GS308EP_CLI_isValidPort :: "int \<Rightarrow> bool" where
  "GS308EP_CLI_isValidPort port = (1 \<le> port \<and> port \<le> 8)"

definition GS308EP_CLI_setPortState :: "int \<Rightarrow> bool \<Rightarrow> cli \<Rightarrow> bool \<times> cli" where
  "GS308EP_CLI_setPortState port enabled s =
     (if \<not> cli_authenticated s then (False, error ''Not authenticated'' s)
      else if \<not> GS308EP_CLI_isValidPort port then (False, error ''Invalid port number'' s)
      else
        (let (configPage, s1) = GS308EP_CLI_httpGet POE_CONFIG_URL s
         in if last_response_code s1 \<noteq> 200
            then (False, error ''Failed to fetch PoE config'' s1)
            else
              (let (found, s2) = GS308EP_CLI_extractClientHash configPage s1
               in if \<not> found then (False, error ''Failed to extract client hash'' s2)
                  else
                    (let postData =
                           ''ACTION=Apply'' @ ''&portID='' @ to_string (port - 1) @
                           ''&ADMIN_MODE='' @ (if enabled then ''1'' else ''0'') @
                           ''&PORT_PRIO=0'' @ ''&POW_MOD=3'' @ ''&POW_LIMT_TYP=0'' @
                           ''&DETEC_TYP=2'' @ ''&DISCONNECT_TYP=2'' @
                           ''&hash='' @ client_hash s2;
                         (response, s3) = GS308EP_CLI_httpPost POE_CONFIG_URL postData s2
                     in (last_response_code s3 = 200, s3)))))"

text \<open>\<^verbatim>\<open>GS308EP_CLI::cyclePort\<close>. \<^verbatim>\<open>delayMs\<close> is the value of a 32-bit \<^verbatim>\<open>int\<close>. The argument
  of \<^verbatim>\<open>usleep\<close> is the product \<^verbatim>\<open>delayMs * 1000\<close> of two 32-bit numbers, which wraps
  around, handed over as \<^verbatim>\<open>useconds_t\<close>, an unsigned 32-bit number: \<^verbatim>\<open>usleep\<close> receives the
  product modulo \<open>2 ^ 32\<close>, and the event \<open>Usleep\<close> records that number of
  microseconds.\<close>

definition GS308EP_CLI_cyclePort :: "int \<Rightarrow> int \<Rightarrow> bool \<Rightarrow> bool \<Rightarrow> cli \<Rightarrow> bool \<times> cli" where
  "GS308EP_CLI_cyclePort port delayMs json quiet s =
     (let (off, s1) = GS308EP_CLI_setPortState port False s
      in if \<not> off then
           (False,
            if json
            then outputJSON (''{'' @ [dq] @ ''port'' @ [dq] @ '':'' @ to_string port @ '','' @
                   [dq] @ ''action'' @ [dq] @ '':'' @ [dq] @ ''cycle'' @ [dq] @ '','' @
                   [dq] @ ''success'' @ [dq] @ '':false}'') s1
            else error (''Failed to turn off port '' @ to_string port) s1)
         else
           (let s2 = (if \<not> quiet \<and> \<not> json
                      then emit (Out (''Port '' @ to_string port @ '' turned OFF, waiting '' @
                                       to_string delayMs @ ''ms...'')) s1
                      else s1);
                s3 = emit (Usleep ((delayMs * 1000) mod 2 ^ 32)) s2;
                (on, s4) = GS308EP_CLI_setPortState port True s3
            in if \<not> on then
                 (False,
                  if json
                  then outputJSON (''{'' @ [dq] @ ''port'' @ [dq] @ '':'' @ to_string port @
                         '','' @ [dq] @ ''action'' @ [dq] @ '':'' @ [dq] @ ''cycle'' @ [dq] @
                         '','' @ [dq] @ ''success'' @ [dq] @ '':false}'') s4
                  else error (''Failed to turn on port '' @ to_string port) s4)
               else
                 (True,
                  if json
                  then outputJSON (''{'' @ [dq] @ ''port'' @ [dq] @ '':'' @ to_string port @
                         '','' @ [dq] @ ''action'' @ [dq] @ '':'' @ [dq] @ ''cycle'' @ [dq] @
                         '','' @ [dq] @ ''delay'' @ [dq] @ '':'' @ to_string delayMs @
                         '','' @ [dq] @ ''success'' @ [dq] @ '':true}'') s4
                  else if \<not> quiet
                  then emit (Out (''Port '' @ to_string port @ '' turned ON (cycle complete)'')) s4
                  else s4)))"


section \<open>The command line tool: telemetry\<close>

text \<open>
  \<^verbatim>\<open>float\<close> is a type parameter \<open>'f\<close> of which only \<open>0\<close>, \<open>- 1\<close> and \<open>+\<close> are used, with no
  law assumed. The members \<^verbatim>\<open>port\<close>, \<^verbatim>\<open>enabled\<close> and \<^verbatim>\<open>power\<close> of \<^verbatim>\<open>PoEPortStats\<close> are
  \<open>stats_port\<close>, \<open>stats_enabled\<close> and \<open>power_w\<close> (the plain names are parameters of the
  functions, and a constant of HOL). \<^verbatim>\<open>std::stof\<close> is a parameter \<open>stof\<close>: \<open>None\<close> when it throws
  (\<^verbatim>\<open>std::invalid_argument\<close>, \<^verbatim>\<open>std::out_of_range\<close>), the parsed value otherwise. The
  Arduino \<^verbatim>\<open>String::toFloat\<close> is a parameter \<open>toFloat\<close>; it never fails.
\<close>

record 'f PoEPortStats =
  stats_port :: "8 word"
  stats_enabled :: bool
  status :: string
  voltage :: 'f
  current :: 'f
  power_w :: 'f
  temperature :: 'f
  fault :: string
  powerClass :: string

definition initial_stats :: "8 word \<Rightarrow> ('f::zero) PoEPortStats" where
  "initial_stats p =
     \<lparr>stats_port = p, stats_enabled = False, status = ''Unknown'', voltage = 0, current = 0,
      power_w = 0, temperature = 0, fault = ''Unknown'', powerClass = ''Unknown''\<rparr>"

definition GS308EP_CLI_extractPortPower ::
  "(string \<Rightarrow> 'f option) \<Rightarrow> string \<Rightarrow> int \<Rightarrow> ('f::{one,uminus})" where
  "GS308EP_CLI_extractPortPower stof html port =
     (let portMarker = ''value='' @ [dq] @ to_string port @ [dq]
      in case str_find html portMarker 0 of
           None \<Rightarrow> - 1
         | Some portPos \<Rightarrow>
            (case str_find html ''ml574'' portPos of
               None \<Rightarrow> - 1
             | Some ml574Pos \<Rightarrow>
                if ml574Pos > portPos + 2000 then - 1
                else
                  (case str_find html ''<span>'' (ml574Pos + 5) of
                     None \<Rightarrow> - 1
                   | Some spanStart0 \<Rightarrow>
                      (let spanStart = spanStart0 + 6
                       in case str_find html ''</span>'' spanStart of
                            None \<Rightarrow> - 1
                          | Some spanEnd \<Rightarrow>
                             (case stof (substr html spanStart (spanEnd - spanStart)) of
                                Some v \<Rightarrow> v
                              | None \<Rightarrow> - 1)))))"

lemma scan_bounds: "scan pat cs i = Some p \<Longrightarrow> i \<le> p \<and> p \<le> i + length cs"
  by (induction cs arbitrary: i) (fastforce split: if_splits)+

lemma str_find_bounds: "str_find s pat pos = Some p \<Longrightarrow> pos \<le> p \<and> p \<le> length s"
  unfolding str_find_def by (auto split: if_splits dest!: scan_bounds)

text \<open>The loop of \<^verbatim>\<open>extractPortStats\<close> that keeps the last position where a label is
  found: \<^verbatim>\<open>while ((tempPos = searchArea.find(label, tempPos)) != npos)
  { found = tempPos; tempPos++; }\<close>\<close>

function last_find_loop :: "string \<Rightarrow> string \<Rightarrow> nat \<Rightarrow> nat option \<Rightarrow> nat option" where
  "last_find_loop searchArea label tempPos found =
     (case str_find searchArea label tempPos of
        None \<Rightarrow> found
      | Some p \<Rightarrow> last_find_loop searchArea label (p + 1) (Some p))"
  by pat_completeness auto

termination
  by (relation "measure (\<lambda>(a, l, t, f). Suc (length a) - t)") (auto dest!: str_find_bounds)

declare last_find_loop.simps [simp del]

text \<open>The lambda \<^verbatim>\<open>extractValue\<close> of \<^verbatim>\<open>GS308EP_CLI::extractPortStats\<close>.\<close>

definition extractValue ::
  "(string \<Rightarrow> 'f option) \<Rightarrow> string \<Rightarrow> nat \<Rightarrow> string \<Rightarrow> ('f::zero)" where
  "extractValue stof html portPos field =
     (case str_find html field portPos of
        None \<Rightarrow> 0
      | Some fieldPos \<Rightarrow>
         if fieldPos < portPos + 2000 then
           (case str_find html ''<span>'' (fieldPos + 5) of
              None \<Rightarrow> 0
            | Some spanStart0 \<Rightarrow>
               (let spanStart = spanStart0 + 6
                in case str_find html ''</span>'' spanStart of
                     None \<Rightarrow> 0
                   | Some spanEnd \<Rightarrow>
                      (case stof (substr html spanStart (spanEnd - spanStart)) of
                         Some v \<Rightarrow> v
                       | None \<Rightarrow> 0)))
         else 0)"

text \<open>\<^verbatim>\<open>GS308EP_CLI::extractPortStats\<close> works through the record block by block; each
  block of the source is a function from the record to the record. The first two look
  at \<^verbatim>\<open>searchArea\<close>, the (at most 500) bytes before the port marker.\<close>

definition CLI_status_block :: "string \<Rightarrow> 'f PoEPortStats \<Rightarrow> 'f PoEPortStats" where
  "CLI_status_block searchArea stats =
     (case last_find_loop searchArea ''poe-power-mode'' 0 None of
        None \<Rightarrow> stats
      | Some statusModePos \<Rightarrow>
         (case str_find searchArea ''<span>'' statusModePos of
            None \<Rightarrow> stats
          | Some spanStart0 \<Rightarrow>
             (let spanStart = spanStart0 + 6
              in case str_find searchArea ''</span>'' spanStart of
                   None \<Rightarrow> stats
                 | Some spanEnd \<Rightarrow>
                    (let st = substr searchArea spanStart (spanEnd - spanStart)
                     in stats\<lparr>status := st,
                          stats_enabled := (st = ''Delivering Power'')\<rparr>))))"

definition CLI_class_block :: "string \<Rightarrow> 'f PoEPortStats \<Rightarrow> 'f PoEPortStats" where
  "CLI_class_block searchArea stats =
     (case last_find_loop searchArea ''powClassShow'' 0 None of
        None \<Rightarrow> stats
      | Some classPos \<Rightarrow>
         (case str_find searchArea ''>'' classPos of
            None \<Rightarrow> stats
          | Some spanStart0 \<Rightarrow>
             (let spanStart = spanStart0 + 1
              in case str_find searchArea ''</span>'' spanStart of
                   None \<Rightarrow> stats
                 | Some spanEnd \<Rightarrow>
                    (let classText = substr searchArea spanStart (spanEnd - spanStart)
                     in if str_find classText ''ml003@'' 0 = Some 0 \<and> length classText > 7
                        then (case str_find classText ''@'' 6 of
                                None \<Rightarrow> stats
                              | Some atPos \<Rightarrow>
                                 stats\<lparr>powerClass :=
                                   ''Class '' @ substr classText 6 (atPos - 6)\<rparr>)
                        else stats\<lparr>powerClass := classText\<rparr>))))"

definition CLI_fault_block :: "string \<Rightarrow> nat \<Rightarrow> 'f PoEPortStats \<Rightarrow> 'f PoEPortStats" where
  "CLI_fault_block html portPos stats =
     (case str_find html ''ml581'' portPos of
        None \<Rightarrow> stats
      | Some ml581Pos \<Rightarrow>
         if ml581Pos < portPos + 2000 then
           (case str_find html ''<span>'' (ml581Pos + 5) of
              None \<Rightarrow> stats
            | Some spanStart0 \<Rightarrow>
               (let spanStart = spanStart0 + 6
                in case str_find html ''</span>'' spanStart of
                     None \<Rightarrow> stats
                   | Some spanEnd \<Rightarrow>
                      stats\<lparr>fault := substr html spanStart (spanEnd - spanStart)\<rparr>))
         else stats)"

definition GS308EP_CLI_extractPortStats ::
  "(string \<Rightarrow> 'f option) \<Rightarrow> string \<Rightarrow> int \<Rightarrow> bool \<times> ('f::{zero,one,uminus}) PoEPortStats" where
  "GS308EP_CLI_extractPortStats stof html port =
     (let stats0 = initial_stats (word_of_int port);
          portMarker = ''value='' @ [dq] @ to_string port @ [dq]
      in case str_find html portMarker 0 of
           None \<Rightarrow> (False, stats0)
         | Some portPos \<Rightarrow>
            (let searchStart = (if portPos > 500 then portPos - 500 else 0);
                 searchArea = substr html searchStart (portPos - searchStart);
                 stats1 = CLI_status_block searchArea stats0;
                 stats2 = CLI_class_block searchArea stats1;
                 stats3 = stats2\<lparr>voltage := extractValue stof html portPos ''ml570'',
                            current := extractValue stof html portPos ''ml572'',
                            power_w := GS308EP_CLI_extractPortPower stof html port,
                            temperature := extractValue stof html portPos ''ml575''\<rparr>;
                 stats4 = CLI_fault_block html portPos stats3
             in (True, stats4)))"






section \<open>The embedded library\<close>

text \<open>\<^verbatim>\<open>GS308EP::extractCookie\<close>. It wants \<^verbatim>\<open>Set-Cookie:\<close> before \<^verbatim>\<open>SID=\<close>, gives up when
  none of the three terminators follows, and stores the value before it tests that the
  value is not empty.\<close>

definition GS308EP_extractCookie :: "string \<Rightarrow> gs308ep \<Rightarrow> bool \<times> gs308ep" where
  "GS308EP_extractCookie headers s =
     (case indexOf headers ''Set-Cookie:'' 0 of
        None \<Rightarrow> (False, s)
      | Some cookieIndex \<Rightarrow>
         (case indexOf headers ''SID='' cookieIndex of
            None \<Rightarrow> (False, s)
          | Some sidIndex0 \<Rightarrow>
             (let sidIndex = sidIndex0 + 4;
                  endIndex1 = indexOf headers '';'' sidIndex;
                  endIndex2 = (if endIndex1 = None then indexOf headers [CR] sidIndex
                               else endIndex1);
                  endIndex3 = (if endIndex2 = None then indexOf headers [LF] sidIndex
                               else endIndex2)
              in case endIndex3 of
                   None \<Rightarrow> (False, s)
                 | Some endIndex \<Rightarrow>
                    (let v = substring headers sidIndex endIndex
                     in (v \<noteq> [], s\<lparr>cookieSID := v\<rparr>)))))"

definition GS308EP_extractClientHash :: "string \<Rightarrow> gs308ep \<Rightarrow> bool \<times> gs308ep" where
  "GS308EP_extractClientHash html s =
     (case (case indexOf html (''name='' @ [sq] @ ''hash'' @ [sq]) 0 of
              None \<Rightarrow> indexOf html (''name='' @ [dq] @ ''hash'' @ [dq]) 0
            | Some p \<Rightarrow> Some p) of
        None \<Rightarrow> (False, s)
      | Some hashIndex \<Rightarrow>
         (case indexOf html ''value'' hashIndex of
            None \<Rightarrow> (False, s)
          | Some valueIndex \<Rightarrow>
             (case (case indexOf html [dq] valueIndex of
                      None \<Rightarrow> indexOf html [sq] valueIndex
                    | Some p \<Rightarrow> Some p) of
                None \<Rightarrow> (False, s)
              | Some startQuote0 \<Rightarrow>
                 (let startQuote = startQuote0 + 1
                  in case (case indexOf html [dq] startQuote of
                             None \<Rightarrow> indexOf html [sq] startQuote
                           | Some p \<Rightarrow> Some p) of
                       None \<Rightarrow> (False, s)
                     | Some endQuote \<Rightarrow>
                        (let h = substring html startQuote endQuote
                         in (h \<noteq> [], s\<lparr>clientHash := h\<rparr>))))))"

text \<open>\<^verbatim>\<open>GS308EP::httpGet\<close> and \<^verbatim>\<open>httpPost\<close>. \<^verbatim>\<open>HTTPClient::GET\<close> answers a negative code
  when the transfer fails (here \<open>- 1\<close>). The body and the \<^verbatim>\<open>Set-Cookie\<close> header are read
  only when the code is 200; the second component of a \<open>Reply\<close> is what
  \<^verbatim>\<open>_http.header("Set-Cookie")\<close> returns.\<close>

definition GS308EP_httpGet :: "string \<Rightarrow> gs308ep \<Rightarrow> string \<times> gs308ep" where
  "GS308EP_httpGet url s =
     (let cookie = (if cookieSID s \<noteq> [] then Some (''SID='' @ cookieSID s) else None);
          (r, s1) = transport GET url [] cookie s
      in case r of
           TransportError \<Rightarrow> ([], s1\<lparr>lastResponseCode := - 1\<rparr>)
         | Reply code hdrs bdy \<Rightarrow>
            (let s2 = s1\<lparr>lastResponseCode := code\<rparr>
             in if code = 200
                then (bdy, if hdrs \<noteq> [] then snd (GS308EP_extractCookie hdrs s2) else s2)
                else ([], s2)))"

definition GS308EP_httpPost :: "string \<Rightarrow> string \<Rightarrow> gs308ep \<Rightarrow> string \<times> gs308ep" where
  "GS308EP_httpPost url data s =
     (let cookie = (if cookieSID s \<noteq> [] then Some (''SID='' @ cookieSID s) else None);
          (r, s1) = transport POST url data cookie s
      in case r of
           TransportError \<Rightarrow> ([], s1\<lparr>lastResponseCode := - 1\<rparr>)
         | Reply code hdrs bdy \<Rightarrow>
            (let s2 = s1\<lparr>lastResponseCode := code\<rparr>
             in if code = 200
                then (bdy, if hdrs \<noteq> [] then snd (GS308EP_extractCookie hdrs s2) else s2)
                else ([], s2)))"

text \<open>The URLs are printed into \<^verbatim>\<open>char url[128]\<close> by \<^verbatim>\<open>snprintf\<close>, which keeps 127
  bytes.\<close>

definition login_url :: "gs308ep \<Rightarrow> string" where
  "login_url s = take 127 (''http://'' @ ip s @ ''/login.cgi'')"

definition poe_config_url :: "gs308ep \<Rightarrow> string" where
  "poe_config_url s = take 127 (''http://'' @ ip s @ ''/PoEPortConfig.cgi'')"

definition GS308EP_fetchLoginPage :: "gs308ep \<Rightarrow> bool \<times> gs308ep" where
  "GS308EP_fetchLoginPage s =
     (let (response, s1) = GS308EP_httpGet (login_url s) s
      in if response = [] then (False, s1)
         else
           (let rand = GS308EP_extractRand response
            in if rand = [] then (True, s1\<lparr>clientHash := md5Hash (password s1)\<rparr>)
               else (True, s1\<lparr>clientHash := mergeHash (password s1) rand\<rparr>)))"

definition GS308EP_login :: "gs308ep \<Rightarrow> bool \<times> gs308ep" where
  "GS308EP_login s =
     (let (fetched, s1) = GS308EP_fetchLoginPage s
      in if \<not> fetched then (False, s1)
         else
           (let postData = ''password='' @ clientHash s1;
                (response, s2) = GS308EP_httpPost (login_url s1) postData s1;
                s3 = s2\<lparr>authenticated := (cookieSID s2 \<noteq> [])\<rparr>
            in (authenticated s3, s3)))"

definition GS308EP_isValidPort :: "8 word \<Rightarrow> bool" where
  "GS308EP_isValidPort port = (1 \<le> port \<and> port \<le> 8)"

definition GS308EP_setPoEPortState :: "8 word \<Rightarrow> bool \<Rightarrow> gs308ep \<Rightarrow> bool \<times> gs308ep" where
  "GS308EP_setPoEPortState port enabled s =
     (if \<not> GS308EP_isValidPort port \<or> \<not> authenticated s then (False, s)
      else
        (let url = poe_config_url s;
             (response, s1) = GS308EP_httpGet url s;
             (found, s2) = GS308EP_extractClientHash response s1
         in if \<not> found then (False, s2)
            else
              (let postData =
                     ''ACTION=Apply'' @ ''&portID='' @ to_string (uint port - 1) @
                     ''&ADMIN_MODE='' @ (if enabled then ''1'' else ''0'') @
                     ''&PORT_PRIO=0'' @ ''&POW_MOD=3'' @ ''&POW_LIMT_TYP=0'' @
                     ''&DETEC_TYP=2'' @ ''&DISCONNECT_TYP=2'' @
                     ''&hash='' @ clientHash s2;
                   (response', s3) = GS308EP_httpPost url postData s2
               in (indexOf response' ''SUCCESS'' 0 \<noteq> None \<or> lastResponseCode s3 = 200, s3))))"

definition GS308EP_turnOnPoEPort :: "8 word \<Rightarrow> gs308ep \<Rightarrow> bool \<times> gs308ep" where
  "GS308EP_turnOnPoEPort port s = GS308EP_setPoEPortState port True s"

definition GS308EP_turnOffPoEPort :: "8 word \<Rightarrow> gs308ep \<Rightarrow> bool \<times> gs308ep" where
  "GS308EP_turnOffPoEPort port s = GS308EP_setPoEPortState port False s"

definition GS308EP_cyclePoEPort :: "8 word \<Rightarrow> 16 word \<Rightarrow> gs308ep \<Rightarrow> bool \<times> gs308ep" where
  "GS308EP_cyclePoEPort port delayMs s =
     (let (off, s1) = GS308EP_turnOffPoEPort port s
      in if \<not> off then (False, s1)
         else GS308EP_turnOnPoEPort port (emit (Delay (unat delayMs)) s1))"

definition GS308EP_extractPortPower ::
  "(string \<Rightarrow> 'f) \<Rightarrow> string \<Rightarrow> 8 word \<Rightarrow> ('f::{one,uminus})" where
  "GS308EP_extractPortPower toFloat html port =
     (let portMarker = ''value='' @ [dq] @ nat_to_string (unat port) @ [dq]
      in case indexOf html portMarker 0 of
           None \<Rightarrow> - 1
         | Some portPos \<Rightarrow>
            (case indexOf html ''ml574'' portPos of
               None \<Rightarrow> - 1
             | Some ml574Pos \<Rightarrow>
                if ml574Pos > portPos + 1000 then - 1
                else
                  (case indexOf html ''<span>'' (ml574Pos + 5) of
                     None \<Rightarrow> - 1
                   | Some spanStart0 \<Rightarrow>
                      (let spanStart = spanStart0 + 6
                       in case indexOf html ''</span>'' spanStart of
                            None \<Rightarrow> - 1
                          | Some spanEnd \<Rightarrow>
                             toFloat (trim (substring html spanStart spanEnd))))))"

text \<open>The block \<^verbatim>\<open>GS308EP::extractPortStats\<close> repeats for \<^verbatim>\<open>ml570\<close>, \<^verbatim>\<open>ml572\<close>, \<^verbatim>\<open>ml575\<close>
  and \<^verbatim>\<open>ml581\<close>: the trimmed text of the first \<^verbatim>\<open><span>\<close> after a label that lies
  less than 1000 bytes after the port marker.\<close>

definition GS308EP_fieldText :: "string \<Rightarrow> nat \<Rightarrow> string \<Rightarrow> string option" where
  "GS308EP_fieldText html portPos field =
     (case indexOf html field portPos of
        None \<Rightarrow> None
      | Some fieldPos \<Rightarrow>
         if fieldPos < portPos + 1000 then
           (case indexOf html ''<span>'' (fieldPos + 5) of
              None \<Rightarrow> None
            | Some spanStart0 \<Rightarrow>
               (let spanStart = spanStart0 + 6
                in case indexOf html ''</span>'' spanStart of
                     None \<Rightarrow> None
                   | Some spanEnd \<Rightarrow> Some (trim (substring html spanStart spanEnd))))
         else None)"

text \<open>\<^verbatim>\<open>GS308EP::extractPortStats\<close>, block by block as well.\<close>

definition GS308EP_status_block :: "string \<Rightarrow> 'f PoEPortStats \<Rightarrow> 'f PoEPortStats" where
  "GS308EP_status_block searchArea stats =
     (case lastIndexOf searchArea ''poe-power-mode'' of
        None \<Rightarrow> stats
      | Some statusModePos \<Rightarrow>
         (case indexOf searchArea ''<span>'' statusModePos of
            None \<Rightarrow> stats
          | Some spanStart0 \<Rightarrow>
             (let spanStart = spanStart0 + 6
              in case indexOf searchArea ''</span>'' spanStart of
                   None \<Rightarrow> stats
                 | Some spanEnd \<Rightarrow>
                    (let st = trim (substring searchArea spanStart spanEnd)
                     in stats\<lparr>status := st,
                          stats_enabled := (st = ''Delivering Power'')\<rparr>))))"

definition GS308EP_class_block :: "string \<Rightarrow> 'f PoEPortStats \<Rightarrow> 'f PoEPortStats" where
  "GS308EP_class_block searchArea stats =
     (case lastIndexOf searchArea ''powClassShow'' of
        None \<Rightarrow> stats
      | Some classPos \<Rightarrow>
         (case indexOf searchArea ''>'' classPos of
            None \<Rightarrow> stats
          | Some spanStart0 \<Rightarrow>
             (let spanStart = spanStart0 + 1
              in case indexOf searchArea ''</span>'' spanStart of
                   None \<Rightarrow> stats
                 | Some spanEnd \<Rightarrow>
                    (let classText = trim (substring searchArea spanStart spanEnd)
                     in if startsWith classText ''ml003@''
                        then (case indexOf classText ''@'' 6 of
                                None \<Rightarrow> stats
                              | Some atPos \<Rightarrow>
                                 if atPos > 6
                                 then stats\<lparr>powerClass :=
                                        ''Class '' @ substring classText 6 atPos\<rparr>
                                 else stats)
                        else stats\<lparr>powerClass := classText\<rparr>))))"

definition GS308EP_extractPortStats ::
  "(string \<Rightarrow> 'f) \<Rightarrow> string \<Rightarrow> 8 word \<Rightarrow> bool \<times> ('f::{zero,one,uminus}) PoEPortStats" where
  "GS308EP_extractPortStats toFloat html port =
     (let stats0 = initial_stats port;
          portMarker = ''value='' @ [dq] @ nat_to_string (unat port) @ [dq]
      in case indexOf html portMarker 0 of
           None \<Rightarrow> (False, stats0)
         | Some portPos \<Rightarrow>
            (let searchStart = (if portPos > 500 then portPos - 500 else 0);
                 searchArea = substring html searchStart portPos;
                 stats1 = GS308EP_status_block searchArea stats0;
                 stats2 = GS308EP_class_block searchArea stats1;
                 stats3 =
                   (case GS308EP_fieldText html portPos ''ml570'' of
                      None \<Rightarrow> stats2
                    | Some voltageStr \<Rightarrow> stats2\<lparr>voltage := toFloat voltageStr\<rparr>);
                 stats4 =
                   (case GS308EP_fieldText html portPos ''ml572'' of
                      None \<Rightarrow> stats3
                    | Some currentStr \<Rightarrow> stats3\<lparr>current := toFloat currentStr\<rparr>);
                 stats5 = stats4\<lparr>power_w := GS308EP_extractPortPower toFloat html port\<rparr>;
                 stats6 =
                   (case GS308EP_fieldText html portPos ''ml575'' of
                      None \<Rightarrow> stats5
                    | Some tempStr \<Rightarrow> stats5\<lparr>temperature := toFloat tempStr\<rparr>);
                 stats7 =
                   (case GS308EP_fieldText html portPos ''ml581'' of
                      None \<Rightarrow> stats6
                    | Some faultStr \<Rightarrow> stats6\<lparr>fault := faultStr\<rparr>)
             in (True, stats7)))"




section \<open>The test harness\<close>

text \<open>\<^verbatim>\<open>GS308EPTest::extractPortPower\<close> calls \<^verbatim>\<open>std::stof\<close> with no handler: when the
  parser throws, so does the function.\<close>

datatype cpp_exception = Stof_threw

definition GS308EPTest_extractPortPower ::
  "(string \<Rightarrow> 'f option) \<Rightarrow> string \<Rightarrow> 8 word \<Rightarrow> cpp_exception + ('f::{one,uminus})" where
  "GS308EPTest_extractPortPower stof html port =
     (let portMarker = ''value='' @ [dq] @ to_string (uint port) @ [dq]
      in case indexOf html portMarker 0 of
           None \<Rightarrow> Inr (- 1)
         | Some portPos \<Rightarrow>
            (case indexOf html ''ml574'' portPos of
               None \<Rightarrow> Inr (- 1)
             | Some ml574Pos \<Rightarrow>
                if ml574Pos > portPos + 2000 then Inr (- 1)
                else
                  (case indexOf html ''<span>'' (ml574Pos + 5) of
                     None \<Rightarrow> Inr (- 1)
                   | Some spanStart0 \<Rightarrow>
                      (let spanStart = spanStart0 + 6
                       in case indexOf html ''</span>'' spanStart of
                            None \<Rightarrow> Inr (- 1)
                          | Some spanEnd \<Rightarrow>
                             (case stof (substring html spanStart spanEnd) of
                                Some v \<Rightarrow> Inr v
                              | None \<Rightarrow> Inl Stof_threw)))))"


section \<open>Example sessions\<close>

text \<open>A configuration page that carries the mutation token \<^verbatim>\<open>hash\<close>, and sessions of the
  tool and of the library that are logged in and about to receive that page (status
  200) and then an empty answer with status 200.\<close>

definition config_page :: string where
  "config_page =
     ''<input type=hidden name='' @ [sq] @ ''hash'' @ [sq] @ '' id='' @ [sq] @ ''hash'' @ [sq] @
     '' value='' @ [dq] @ ''3483299a'' @ [dq] @ ''>''"

definition cli_session :: "reply list \<Rightarrow> cli" where
  "cli_session rs =
     \<lparr>pending = rs, trace = [], host = ''192.168.0.239'', cli_password = ''secret'',
      cookie_sid = ''abc123'', client_hash = [], cli_authenticated = True, verbose = False,
      last_response_code = 200\<rparr>"

definition lib_session :: "reply list \<Rightarrow> gs308ep" where
  "lib_session rs =
     \<lparr>pending = rs, trace = [], ip = ''192.168.0.239'', password = ''secret'',
      cookieSID = ''abc123'', clientHash = [], authenticated = True,
      lastResponseCode = 200\<rparr>"


text \<open>The microseconds of the calls of \<^verbatim>\<open>usleep\<close> in a trace, in order.\<close>

fun sleeps :: "event list \<Rightarrow> int list" where
  "sleeps [] = []"
| "sleeps (Usleep n # es) = n # sleeps es"
| "sleeps (e # es) = sleeps es"

text \<open>The bodies of the POST requests in a trace, in order.\<close>

fun post_bodies :: "event list \<Rightarrow> string list" where
  "post_bodies [] = []"
| "post_bodies (Exchange POST url data cookie r # es) = data # post_bodies es"
| "post_bodies (e # es) = post_bodies es"

text \<open>A login page with the \<^verbatim>\<open>rand\<close> field, a login page of an older firmware without
  it, the header lines of an answer that sets the session cookie (as libcurl hands them
  to the tool, and the one line the library reads), and sessions that hold no cookie
  yet.\<close>

definition login_page :: string where
  "login_page =
     ''<form name='' @ [dq] @ ''login'' @ [dq] @ ''><input type=hidden id='' @ [dq] @ ''rand'' @
     [dq] @ '' name='' @ [dq] @ ''rand'' @ [dq] @ '' value='' @ [sq] @ ''1735414426'' @ [sq] @
     '' disabled></form>''"

definition legacy_login_page :: string where
  "legacy_login_page =
     ''<form name='' @ [dq] @ ''login'' @ [dq] @ ''><input id='' @ [dq] @ ''submitPwd'' @ [dq] @
     '' name='' @ [dq] @ ''password'' @ [dq] @ ''></form>''"

definition cookie_headers :: string where
  "cookie_headers =
     ''HTTP/1.1 200 OK'' @ [CR, LF] @ ''Set-Cookie: SID=abc123; Path=/'' @ [CR, LF] @
     ''Content-Type: text/html'' @ [CR, LF]"

definition cookie_line :: string where
  "cookie_line = ''Set-Cookie: SID=abc123; Path=/''"

definition cli_fresh :: "reply list \<Rightarrow> cli" where
  "cli_fresh rs =
     \<lparr>pending = rs, trace = [], host = ''192.168.0.239'', cli_password = ''secret'',
      cookie_sid = [], client_hash = [], cli_authenticated = False, verbose = False,
      last_response_code = 0\<rparr>"

definition lib_fresh :: "reply list \<Rightarrow> gs308ep" where
  "lib_fresh rs =
     \<lparr>pending = rs, trace = [], ip = ''192.168.0.239'', password = ''secret'',
      cookieSID = [], clientHash = [], authenticated = False, lastResponseCode = 0\<rparr>"


text \<open>The cookie the library holds after an answer with status \<open>code\<close> whose
  \<^verbatim>\<open>Set-Cookie\<close> header is \<open>hdrs\<close>: \<^verbatim>\<open>GS308EP::httpGet\<close> and \<^verbatim>\<open>GS308EP::httpPost\<close> hand the
  header to \<^verbatim>\<open>extractCookie\<close> only at status 200 and only when it is not empty.\<close>

definition GS308EP_cookie_after :: "int \<Rightarrow> string \<Rightarrow> gs308ep \<Rightarrow> string" where
  "GS308EP_cookie_after code hdrs s =
     (if code = 200 \<and> hdrs \<noteq> [] then cookieSID (snd (GS308EP_extractCookie hdrs s))
      else cookieSID s)"

text \<open>Where the value of a cookie ends. \<open>cookie_value v\<close>, for the text \<open>v\<close> after
  \<^verbatim>\<open>SID=\<close>, is the rule the sources implement: up to the first semicolon if there is one
  anywhere in \<open>v\<close>, else up to the first carriage return, else up to the first line feed,
  and \<open>None\<close> when none of the three occurs. \<open>cookie_value_first_terminator\<close> is the rule
  of the specification: up to whichever of the three comes first.\<close>

definition cookie_value :: "string \<Rightarrow> string option" where
  "cookie_value v =
     (if CHR '';'' \<in> set v then Some (takeWhile (\<lambda>c. c \<noteq> CHR '';'') v)
      else if CR \<in> set v then Some (takeWhile (\<lambda>c. c \<noteq> CR) v)
      else if LF \<in> set v then Some (takeWhile (\<lambda>c. c \<noteq> LF) v)
      else None)"

definition cookie_value_first_terminator :: "string \<Rightarrow> string" where
  "cookie_value_first_terminator v = takeWhile (\<lambda>c. c \<noteq> CHR '';'' \<and> c \<noteq> CR \<and> c \<noteq> LF) v"

text \<open>Header lines in which the cookie has no attribute and a later line has a
  semicolon.\<close>

definition plain_cookie_headers :: string where
  "plain_cookie_headers =
     ''Set-Cookie: SID=abc123'' @ [CR, LF] @ ''Content-Type: text/html; charset=utf-8'' @
     [CR, LF]"

text \<open>The steps of the specification for the power of a port. \<open>span_after html pos\<close>
  is the text between the first \<^verbatim>\<open><span>\<close> at or after \<open>pos\<close> and the next \<^verbatim>\<open></span>\<close>.
  \<open>power_text window html port_text\<close> finds the anchor \<^verbatim>\<open>value="<port>"\<close>, then the
  label \<^verbatim>\<open>ml574\<close> at most \<open>window\<close> bytes after the anchor, then the span after the
  label; it is \<open>None\<close> when one of the three is missing.\<close>

definition span_after :: "string \<Rightarrow> nat \<Rightarrow> string option" where
  "span_after html pos =
     (case str_find html ''<span>'' pos of
        None \<Rightarrow> None
      | Some a \<Rightarrow>
         (case str_find html ''</span>'' (a + 6) of
            None \<Rightarrow> None
          | Some e \<Rightarrow> Some (substr html (a + 6) (e - (a + 6)))))"

definition power_text :: "nat \<Rightarrow> string \<Rightarrow> string \<Rightarrow> string option" where
  "power_text window html port_text =
     (case str_find html (''value='' @ [dq] @ port_text @ [dq]) 0 of
        None \<Rightarrow> None
      | Some anchor \<Rightarrow>
         (case str_find html ''ml574'' anchor of
            None \<Rightarrow> None
          | Some label \<Rightarrow>
             if anchor + window < label then None else span_after html (label + 5)))"

text \<open>A float parser for the examples: \<^verbatim>\<open>std::stof\<close> and \<^verbatim>\<open>String::toFloat\<close> on plain
  decimal numerals (white space, an optional sign, digits with an optional fraction;
  what follows the numeral is ignored). Without a digit \<^verbatim>\<open>std::stof\<close> throws and
  \<^verbatim>\<open>toFloat\<close> answers 0. The values are real numbers here.\<close>

definition is_digit :: "char \<Rightarrow> bool" where
  "is_digit c = (c \<in> set ''0123456789'')"

definition digits_value :: "string \<Rightarrow> nat" where
  "digits_value ds = foldl (\<lambda>a c. 10 * a + (of_char c - 48)) 0 ds"

definition stof_decimal :: "string \<Rightarrow> real option" where
  "stof_decimal s =
     (let s1 = dropWhile isspace s;
          neg = (s1 \<noteq> [] \<and> hd s1 = CHR ''-'');
          s2 = (if s1 \<noteq> [] \<and> (hd s1 = CHR ''-'' \<or> hd s1 = CHR ''+'') then tl s1 else s1);
          ip = takeWhile is_digit s2;
          r = dropWhile is_digit s2;
          fp = (if r \<noteq> [] \<and> hd r = CHR ''.'' then takeWhile is_digit (tl r) else [])
      in if ip = [] \<and> fp = [] then None
         else Some ((if neg then - 1 else 1) *
                    (real (digits_value ip) + real (digits_value fp) / 10 ^ length fp)))"

definition toFloat_decimal :: "string \<Rightarrow> real" where
  "toFloat_decimal s = (case stof_decimal s of None \<Rightarrow> 0 | Some v \<Rightarrow> v)"


text \<open>A status page for port 1 in the layout of the test suite, and one in which the
  label comes 1210 bytes after the anchor.\<close>

definition power_page :: string where
  "power_page =
     ''<input type='' @ [dq] @ ''hidden'' @ [dq] @ '' class='' @ [dq] @ ''port'' @ [dq] @
     '' value='' @ [dq] @ ''1'' @ [dq] @ ''><span class='' @ [sq] @ ''hid-txt wid-full'' @ [sq] @
     ''>ml574</span></div><div><span>5.8</span>''"

definition far_label_page :: string where
  "far_label_page =
     ''value='' @ [dq] @ ''1'' @ [dq] @ replicate 1201 (CHR '' '') @ ''ml574<span>5.8</span>''"


text \<open>Occurrences of a label. \<open>occurs_at s pat i\<close>: the label \<open>pat\<close> starts at position
  \<open>i\<close> of \<open>s\<close>; \<open>last_occurrence s pat p\<close>: it starts at \<open>p\<close> and nowhere after \<open>p\<close>.\<close>

definition occurs_at :: "string \<Rightarrow> string \<Rightarrow> nat \<Rightarrow> bool" where
  "occurs_at s pat i = (i \<le> length s \<and> prefix pat (drop i s))"

definition last_occurrence :: "string \<Rightarrow> string \<Rightarrow> nat \<Rightarrow> bool" where
  "last_occurrence s pat p =
     (occurs_at s pat p \<and> (\<forall>q \<in> set [Suc p ..< Suc (length s)]. \<not> occurs_at s pat q))"

text \<open>The backward window of the specification: the (at most) \<open>n\<close> bytes before the
  anchor. \<open>class_text_at area pos\<close> is the raw class text that follows a label at \<open>pos\<close>:
  from after the next \<^verbatim>\<open>>\<close> to the next \<^verbatim>\<open></span>\<close>. \<open>CLI_power_class\<close> and
  \<open>GS308EP_power_class\<close> are what the tool and the library make of a raw class text in a
  record whose class is still \<^verbatim>\<open>Unknown\<close>.\<close>

definition window_before :: "nat \<Rightarrow> string \<Rightarrow> nat \<Rightarrow> string" where
  "window_before n html anchor = drop (anchor - n) (take anchor html)"

definition class_text_at :: "string \<Rightarrow> nat \<Rightarrow> string option" where
  "class_text_at area pos =
     (case str_find area ''>'' pos of
        None \<Rightarrow> None
      | Some a \<Rightarrow>
         (case str_find area ''</span>'' (a + 1) of
            None \<Rightarrow> None
          | Some e \<Rightarrow> Some (substr area (a + 1) (e - (a + 1)))))"

definition CLI_power_class :: "string \<Rightarrow> string" where
  "CLI_power_class raw =
     (if str_find raw ''ml003@'' 0 = Some 0 \<and> length raw > 7
      then (case str_find raw ''@'' 6 of
              None \<Rightarrow> ''Unknown''
            | Some k \<Rightarrow> ''Class '' @ substr raw 6 (k - 6))
      else raw)"

definition GS308EP_power_class :: "string \<Rightarrow> string" where
  "GS308EP_power_class raw =
     (let classText = trim raw
      in if startsWith classText ''ml003@''
         then (case indexOf classText ''@'' 6 of
                 None \<Rightarrow> ''Unknown''
               | Some k \<Rightarrow>
                  if k > 6 then ''Class '' @ substring classText 6 k else ''Unknown'')
         else classText)"

text \<open>A status page with two port blocks before the marker of port 1: the labels
  \<^verbatim>\<open>poe-power-mode\<close> and \<^verbatim>\<open>powClassShow\<close> occur twice in the window.\<close>

definition two_status_page :: string where
  "two_status_page =
     ''<span class='' @ [dq] @ ''pull-right poe-power-mode'' @ [dq] @
     ''><span>Disabled</span></span><span class='' @ [dq] @ ''powClassShow'' @ [dq] @
     ''>ml003@3@</span><span class='' @ [dq] @ ''pull-right poe-power-mode'' @ [dq] @
     ''><span>Delivering Power</span></span><span class='' @ [dq] @ ''powClassShow'' @ [dq] @
     ''>ml003@4@</span><input type='' @ [dq] @ ''hidden'' @ [dq] @ '' class='' @ [dq] @
     ''port'' @ [dq] @ '' value='' @ [dq] @ ''1'' @ [dq] @ ''><span>ml574</span><span>5.8</span>''"




text \<open>A login page whose \<^verbatim>\<open>rand\<close> field has its value in double quotes and is followed
  by a field with a value in single quotes, and a \<^verbatim>\<open>Set-Cookie\<close> header that clears the
  cookie.\<close>

definition two_quote_login_page :: string where
  "two_quote_login_page =
     ''<input type=hidden id='' @ [dq] @ ''rand'' @ [dq] @ '' name='' @ [dq] @ ''rand'' @ [dq] @
     '' value='' @ [dq] @ ''1735414426'' @ [dq] @ ''><input type=submit value='' @ [sq] @
     ''Login'' @ [sq] @ ''>''"

definition expired_cookie_line :: string where
  "expired_cookie_line = ''Set-Cookie: SID=; Max-Age=0''"

section \<open>Frame lemmas\<close>

lemma post_statuses_append: "post_statuses (xs @ ys) = post_statuses xs @ post_statuses ys"
  by (induction xs rule: post_statuses.induct) auto

lemma indexOf_Nil: "indexOf [] pat start = None"
  by (simp add: indexOf_def)

lemma CLI_extractClientHash_frame:
  "trace (snd (GS308EP_CLI_extractClientHash html s)) = trace s"
  "pending (snd (GS308EP_CLI_extractClientHash html s)) = pending s"
  "last_response_code (snd (GS308EP_CLI_extractClientHash html s)) = last_response_code s"
  "cli_authenticated (snd (GS308EP_CLI_extractClientHash html s)) = cli_authenticated s"
  "cookie_sid (snd (GS308EP_CLI_extractClientHash html s)) = cookie_sid s"
  "verbose (snd (GS308EP_CLI_extractClientHash html s)) = verbose s"
  "host (snd (GS308EP_CLI_extractClientHash html s)) = host s"
  unfolding GS308EP_CLI_extractClientHash_def
  by (simp_all add: Let_def split: option.splits)

lemma CLI_httpGet_trace:
  "\<exists>evs. trace (snd (GS308EP_CLI_httpGet path s)) = trace s @ evs \<and> post_statuses evs = []"
  unfolding GS308EP_CLI_httpGet_def transport_def log_def error_def emit_def
  by (simp add: Let_def post_statuses_append split: list.splits reply.splits prod.splits)

lemma CLI_httpPost_trace:
  "\<exists>evs. trace (snd (GS308EP_CLI_httpPost path data s)) = trace s @ evs \<and>
     (post_statuses evs = [] \<and> last_response_code (snd (GS308EP_CLI_httpPost path data s)) = 0
      \<or> post_statuses evs = [last_response_code (snd (GS308EP_CLI_httpPost path data s))])"
  unfolding GS308EP_CLI_httpPost_def transport_def log_def error_def emit_def
  by (simp add: Let_def post_statuses_append split: list.splits reply.splits prod.splits)

lemma GS308EP_extractCookie_frame:
  "trace (snd (GS308EP_extractCookie h s)) = trace s"
  "pending (snd (GS308EP_extractCookie h s)) = pending s"
  "lastResponseCode (snd (GS308EP_extractCookie h s)) = lastResponseCode s"
  "authenticated (snd (GS308EP_extractCookie h s)) = authenticated s"
  "clientHash (snd (GS308EP_extractCookie h s)) = clientHash s"
  "ip (snd (GS308EP_extractCookie h s)) = ip s"
  "password (snd (GS308EP_extractCookie h s)) = password s"
  unfolding GS308EP_extractCookie_def
  by (simp_all add: Let_def split: option.splits)

lemma GS308EP_extractClientHash_frame:
  "trace (snd (GS308EP_extractClientHash h s)) = trace s"
  "pending (snd (GS308EP_extractClientHash h s)) = pending s"
  "lastResponseCode (snd (GS308EP_extractClientHash h s)) = lastResponseCode s"
  "authenticated (snd (GS308EP_extractClientHash h s)) = authenticated s"
  "cookieSID (snd (GS308EP_extractClientHash h s)) = cookieSID s"
  "ip (snd (GS308EP_extractClientHash h s)) = ip s"
  "password (snd (GS308EP_extractClientHash h s)) = password s"
  unfolding GS308EP_extractClientHash_def
  by (simp_all add: Let_def split: option.splits)

lemma GS308EP_httpGet_trace:
  "\<exists>evs. trace (snd (GS308EP_httpGet url s)) = trace s @ evs \<and> post_statuses evs = []"
  unfolding GS308EP_httpGet_def transport_def emit_def
  by (simp add: Let_def GS308EP_extractCookie_frame split: list.splits reply.splits prod.splits)

lemma GS308EP_httpPost_trace:
  "\<exists>evs. trace (snd (GS308EP_httpPost url data s)) = trace s @ evs \<and>
     (post_statuses evs = [] \<and> lastResponseCode (snd (GS308EP_httpPost url data s)) = - 1 \<and>
        fst (GS308EP_httpPost url data s) = []
      \<or> post_statuses evs = [lastResponseCode (snd (GS308EP_httpPost url data s))] \<and>
        (lastResponseCode (snd (GS308EP_httpPost url data s)) \<noteq> 200 \<longrightarrow>
           fst (GS308EP_httpPost url data s) = []))"
  unfolding GS308EP_httpPost_def transport_def emit_def
  by (simp add: Let_def GS308EP_extractCookie_frame split: list.splits reply.splits prod.splits)

section \<open>Changing the state of a port\<close>

lemma CLI_setPortState_status:
  assumes "cli_authenticated s" and "GS308EP_CLI_isValidPort port"
  shows "fst (GS308EP_CLI_setPortState port enabled s) =
         (post_statuses (new_events s (snd (GS308EP_CLI_setPortState port enabled s))) = [200])"
proof -
  obtain configPage s1 where g: "GS308EP_CLI_httpGet POE_CONFIG_URL s = (configPage, s1)"
    by (cases "GS308EP_CLI_httpGet POE_CONFIG_URL s")
  obtain e1 where e1: "trace s1 = trace s @ e1" "post_statuses e1 = []"
    using CLI_httpGet_trace[of POE_CONFIG_URL s] g by auto
  show ?thesis
  proof (cases "last_response_code s1 = 200")
    case False
    then show ?thesis using assms g e1
      by (simp add: GS308EP_CLI_setPortState_def error_def emit_def new_events_def
          post_statuses_append)
  next
    case True
    obtain found s2 where h: "GS308EP_CLI_extractClientHash configPage s1 = (found, s2)"
      by (cases "GS308EP_CLI_extractClientHash configPage s1")
    have t2: "trace s2 = trace s1"
      using CLI_extractClientHash_frame(1)[of configPage s1] h by simp
    show ?thesis
    proof (cases found)
      case False
      then show ?thesis using assms g e1 h t2 True
        by (simp add: GS308EP_CLI_setPortState_def error_def emit_def new_events_def
            post_statuses_append)
    next
      case found: True
      define postData where "postData =
         ''ACTION=Apply'' @ ''&portID='' @ to_string (port - 1) @
         ''&ADMIN_MODE='' @ (if enabled then ''1'' else ''0'') @
         ''&PORT_PRIO=0'' @ ''&POW_MOD=3'' @ ''&POW_LIMT_TYP=0'' @
         ''&DETEC_TYP=2'' @ ''&DISCONNECT_TYP=2'' @ ''&hash='' @ client_hash s2"
      obtain response s3
        where p: "GS308EP_CLI_httpPost POE_CONFIG_URL postData s2 = (response, s3)"
        by (cases "GS308EP_CLI_httpPost POE_CONFIG_URL postData s2")
      obtain e2 where e2: "trace s3 = trace s2 @ e2"
        "post_statuses e2 = [] \<and> last_response_code s3 = 0 \<or>
         post_statuses e2 = [last_response_code s3]"
        using CLI_httpPost_trace[of POE_CONFIG_URL postData s2] p by auto
      have r: "GS308EP_CLI_setPortState port enabled s = (last_response_code s3 = 200, s3)"
        using assms g h True found p
        by (simp add: GS308EP_CLI_setPortState_def postData_def)
      have "new_events s s3 = e1 @ e2"
        using e1 e2 t2 by (simp add: new_events_def)
      then show ?thesis using r e1 e2 by (auto simp: post_statuses_append)
    qed
  qed
qed

lemma GS308EP_setPoEPortState_status:
  assumes "authenticated s" and "GS308EP_isValidPort port"
  shows "fst (GS308EP_setPoEPortState port enabled s) =
         (post_statuses (new_events s (snd (GS308EP_setPoEPortState port enabled s))) = [200])"
proof -
  obtain response s1 where g: "GS308EP_httpGet (poe_config_url s) s = (response, s1)"
    by (cases "GS308EP_httpGet (poe_config_url s) s")
  obtain e1 where e1: "trace s1 = trace s @ e1" "post_statuses e1 = []"
    using GS308EP_httpGet_trace[of "poe_config_url s" s] g by auto
  obtain found s2 where h: "GS308EP_extractClientHash response s1 = (found, s2)"
    by (cases "GS308EP_extractClientHash response s1")
  have t2: "trace s2 = trace s1"
    using GS308EP_extractClientHash_frame(1)[of response s1] h by simp
  show ?thesis
  proof (cases found)
    case False
    then show ?thesis using assms g e1 h t2
      by (simp add: GS308EP_setPoEPortState_def new_events_def)
  next
    case found: True
    define postData where "postData =
       ''ACTION=Apply'' @ ''&portID='' @ to_string (uint port - 1) @
       ''&ADMIN_MODE='' @ (if enabled then ''1'' else ''0'') @
       ''&PORT_PRIO=0'' @ ''&POW_MOD=3'' @ ''&POW_LIMT_TYP=0'' @
       ''&DETEC_TYP=2'' @ ''&DISCONNECT_TYP=2'' @ ''&hash='' @ clientHash s2"
    obtain response' s3
      where p: "GS308EP_httpPost (poe_config_url s) postData s2 = (response', s3)"
      by (cases "GS308EP_httpPost (poe_config_url s) postData s2")
    obtain e2 where e2: "trace s3 = trace s2 @ e2"
      "post_statuses e2 = [] \<and> lastResponseCode s3 = - 1 \<and> response' = [] \<or>
       post_statuses e2 = [lastResponseCode s3] \<and>
         (lastResponseCode s3 \<noteq> 200 \<longrightarrow> response' = [])"
      using GS308EP_httpPost_trace[of "poe_config_url s" postData s2] p by auto
    have r: "GS308EP_setPoEPortState port enabled s =
             (indexOf response' ''SUCCESS'' 0 \<noteq> None \<or> lastResponseCode s3 = 200, s3)"
      using assms g h found p
      by (simp add: GS308EP_setPoEPortState_def postData_def)
    have "new_events s s3 = e1 @ e2"
      using e1 e2 t2 by (simp add: new_events_def)
    then show ?thesis using r e1 e2 by (auto simp: post_statuses_append indexOf_Nil)
  qed
qed

text \<open>
  Claim C4. For an authenticated session and a port from 1 to 8, \<^verbatim>\<open>setPortState\<close>
  succeeds if and only if the call made exactly one POST and the status of its answer
  is 200. This holds for the tool, which tests the status alone, and for the library,
  whose test \<^verbatim>\<open>response.indexOf("SUCCESS") != -1 || _lastResponseCode == 200\<close> adds
  nothing: \<^verbatim>\<open>httpPost\<close> reads the body only when the status is 200, so a body that
  holds \<^verbatim>\<open>SUCCESS\<close> comes with status 200.
\<close>

theorem setPortState_success_iff_status_200:
  "(cli_authenticated s \<and> GS308EP_CLI_isValidPort port \<longrightarrow>
      fst (GS308EP_CLI_setPortState port enabled s) =
      (post_statuses (new_events s (snd (GS308EP_CLI_setPortState port enabled s))) = [200]))
   \<and>
   (authenticated t \<and> GS308EP_isValidPort port' \<longrightarrow>
      fst (GS308EP_setPoEPortState port' enabled' t) =
      (post_statuses (new_events t (snd (GS308EP_setPoEPortState port' enabled' t))) = [200]))"
  using CLI_setPortState_status GS308EP_setPoEPortState_status by blast

theorem setPortState_success_iff_status_200_witness:
  "cli_authenticated (cli_session [Reply 200 [] config_page, Reply 200 [] ''SUCCESS''])
   \<and> GS308EP_CLI_isValidPort 3
   \<and> fst (GS308EP_CLI_setPortState 3 True
            (cli_session [Reply 200 [] config_page, Reply 200 [] ''SUCCESS'']))
   \<and> authenticated (lib_session [Reply 200 [] config_page, Reply 500 [] ''SUCCESS''])
   \<and> GS308EP_isValidPort 3
   \<and> \<not> fst (GS308EP_setPoEPortState 3 True
              (lib_session [Reply 200 [] config_page, Reply 500 [] ''SUCCESS'']))"
proof -
  let ?s = "cli_session [Reply 200 [] config_page, Reply 200 [] ''SUCCESS'']"
  let ?t = "lib_session [Reply 200 [] config_page, Reply 500 [] ''SUCCESS'']"
  have a: "cli_authenticated ?s" "GS308EP_CLI_isValidPort 3"
    by (simp_all add: cli_session_def GS308EP_CLI_isValidPort_def)
  have b: "authenticated ?t" "GS308EP_isValidPort 3"
    by (simp_all add: lib_session_def GS308EP_isValidPort_def)
  have c: "post_statuses (new_events ?s (snd (GS308EP_CLI_setPortState 3 True ?s))) = [200]"
    by code_simp
  have d: "post_statuses (new_events ?t (snd (GS308EP_setPoEPortState 3 True ?t))) = [500]"
    by code_simp
  from setPortState_success_iff_status_200[of ?s 3 True ?t 3 True] a b c d
  show ?thesis by simp
qed


section \<open>Cycling a port\<close>

lemma exchanges_append: "exchanges (xs @ ys) = exchanges xs @ exchanges ys"
  by (induction xs rule: exchanges.induct) auto

lemma new_events_emit: "new_events w (emit e w) = [e]"
  by (simp add: new_events_def emit_def)

lemma CLI_cyclePort_off_failed:
  assumes "\<not> fst (GS308EP_CLI_setPortState port False s)"
  shows "\<not> fst (GS308EP_CLI_cyclePort port delayMs json quiet s) \<and>
         (\<exists>txt. snd (GS308EP_CLI_cyclePort port delayMs json quiet s) =
                  emit (Out txt) (snd (GS308EP_CLI_setPortState port False s)) \<or>
                snd (GS308EP_CLI_cyclePort port delayMs json quiet s) =
                  emit (Err txt) (snd (GS308EP_CLI_setPortState port False s)))"
  using assms
  by (cases "GS308EP_CLI_setPortState port False s")
     (auto simp: GS308EP_CLI_cyclePort_def outputJSON_def error_def)

lemma CLI_cyclePort_off_done:
  assumes "fst (GS308EP_CLI_setPortState port False s)"
  shows "\<exists>s2 on.
           (s2 = snd (GS308EP_CLI_setPortState port False s) \<or>
            (\<exists>txt. s2 = emit (Out txt) (snd (GS308EP_CLI_setPortState port False s)))) \<and>
           on = GS308EP_CLI_setPortState port True (emit (Usleep ((delayMs * 1000) mod 2 ^ 32)) s2) \<and>
           fst (GS308EP_CLI_cyclePort port delayMs json quiet s) = fst on \<and>
           (snd (GS308EP_CLI_cyclePort port delayMs json quiet s) = snd on \<or>
            (\<exists>txt. snd (GS308EP_CLI_cyclePort port delayMs json quiet s) =
                     emit (Out txt) (snd on) \<or>
                   snd (GS308EP_CLI_cyclePort port delayMs json quiet s) =
                     emit (Err txt) (snd on)))"
proof -
  obtain s1 where off: "GS308EP_CLI_setPortState port False s = (True, s1)"
    using assms by (cases "GS308EP_CLI_setPortState port False s") simp
  define s2 where "s2 = (if \<not> quiet \<and> \<not> json
       then emit (Out (''Port '' @ to_string port @ '' turned OFF, waiting '' @
                        to_string delayMs @ ''ms...'')) s1
       else s1)"
  obtain on s4
    where on: "GS308EP_CLI_setPortState port True (emit (Usleep ((delayMs * 1000) mod 2 ^ 32)) s2) = (on, s4)"
    by (cases "GS308EP_CLI_setPortState port True (emit (Usleep ((delayMs * 1000) mod 2 ^ 32)) s2)")
  have a: "s2 = s1 \<or> (\<exists>txt. s2 = emit (Out txt) s1)"
    by (auto simp: s2_def)
  have b: "fst (GS308EP_CLI_cyclePort port delayMs json quiet s) = on"
    using off on by (simp add: GS308EP_CLI_cyclePort_def s2_def Let_def)
  have c: "snd (GS308EP_CLI_cyclePort port delayMs json quiet s) = s4 \<or>
           (\<exists>txt. snd (GS308EP_CLI_cyclePort port delayMs json quiet s) = emit (Out txt) s4 \<or>
                  snd (GS308EP_CLI_cyclePort port delayMs json quiet s) = emit (Err txt) s4)"
    using off on
    by (auto simp: GS308EP_CLI_cyclePort_def s2_def Let_def outputJSON_def error_def)
  show ?thesis
    using a b c off on by (intro exI[of _ s2] exI[of _ "(on, s4)"]) simp
qed

lemma GS308EP_cyclePoEPort_steps:
  "GS308EP_cyclePoEPort port delayMs t =
     (if \<not> fst (GS308EP_turnOffPoEPort port t)
      then (False, snd (GS308EP_turnOffPoEPort port t))
      else GS308EP_turnOnPoEPort port
             (emit (Delay (unat delayMs)) (snd (GS308EP_turnOffPoEPort port t))))"
  by (cases "GS308EP_turnOffPoEPort port t") (simp add: GS308EP_cyclePoEPort_def)

text \<open>
  The course of \<^verbatim>\<open>cyclePort\<close>. When the off-step fails, \<^verbatim>\<open>cyclePort\<close> fails, and the state it
  leaves is the state the off-step left plus one line of output: no further exchange
  with the switch, no sleep. When the off-step succeeds, the tool (after an optional
  progress line) calls \<^verbatim>\<open>usleep\<close> with the product \<^verbatim>\<open>delayMs * 1000\<close> modulo \<open>2 ^ 32\<close>, runs the
  on-step and returns its result (it then prints one more line). The library does the
  same with \<^verbatim>\<open>delay(delayMs)\<close>, a 16-bit number of milliseconds, and prints nothing.
\<close>

lemma cyclePort_steps:
  "(\<not> fst (GS308EP_CLI_setPortState port False s) \<longrightarrow>
      \<not> fst (GS308EP_CLI_cyclePort port delayMs json quiet s) \<and>
      (\<exists>txt. snd (GS308EP_CLI_cyclePort port delayMs json quiet s) =
               emit (Out txt) (snd (GS308EP_CLI_setPortState port False s)) \<or>
             snd (GS308EP_CLI_cyclePort port delayMs json quiet s) =
               emit (Err txt) (snd (GS308EP_CLI_setPortState port False s))) \<and>
      exchanges (new_events (snd (GS308EP_CLI_setPortState port False s))
                   (snd (GS308EP_CLI_cyclePort port delayMs json quiet s))) = [])
   \<and>
   (fst (GS308EP_CLI_setPortState port False s) \<longrightarrow>
      (\<exists>s2 on.
         (s2 = snd (GS308EP_CLI_setPortState port False s) \<or>
          (\<exists>txt. s2 = emit (Out txt) (snd (GS308EP_CLI_setPortState port False s)))) \<and>
         on = GS308EP_CLI_setPortState port True (emit (Usleep ((delayMs * 1000) mod 2 ^ 32)) s2) \<and>
         fst (GS308EP_CLI_cyclePort port delayMs json quiet s) = fst on \<and>
         (snd (GS308EP_CLI_cyclePort port delayMs json quiet s) = snd on \<or>
          (\<exists>txt. snd (GS308EP_CLI_cyclePort port delayMs json quiet s) =
                   emit (Out txt) (snd on) \<or>
                 snd (GS308EP_CLI_cyclePort port delayMs json quiet s) =
                   emit (Err txt) (snd on)))))
   \<and>
   GS308EP_cyclePoEPort port' delayMs' t =
     (if \<not> fst (GS308EP_turnOffPoEPort port' t)
      then (False, snd (GS308EP_turnOffPoEPort port' t))
      else GS308EP_turnOnPoEPort port'
             (emit (Delay (unat delayMs')) (snd (GS308EP_turnOffPoEPort port' t))))"
proof (intro conjI impI)
  assume off: "\<not> fst (GS308EP_CLI_setPortState port False s)"
  from CLI_cyclePort_off_failed[OF off, of delayMs json quiet]
  show "\<not> fst (GS308EP_CLI_cyclePort port delayMs json quiet s)"
    and "\<exists>txt. snd (GS308EP_CLI_cyclePort port delayMs json quiet s) =
               emit (Out txt) (snd (GS308EP_CLI_setPortState port False s)) \<or>
             snd (GS308EP_CLI_cyclePort port delayMs json quiet s) =
               emit (Err txt) (snd (GS308EP_CLI_setPortState port False s))"
    by blast+
  then show "exchanges (new_events (snd (GS308EP_CLI_setPortState port False s))
                   (snd (GS308EP_CLI_cyclePort port delayMs json quiet s))) = []"
    by (auto simp: new_events_emit)
next
  assume "fst (GS308EP_CLI_setPortState port False s)"
  then show "\<exists>s2 on.
         (s2 = snd (GS308EP_CLI_setPortState port False s) \<or>
          (\<exists>txt. s2 = emit (Out txt) (snd (GS308EP_CLI_setPortState port False s)))) \<and>
         on = GS308EP_CLI_setPortState port True (emit (Usleep ((delayMs * 1000) mod 2 ^ 32)) s2) \<and>
         fst (GS308EP_CLI_cyclePort port delayMs json quiet s) = fst on \<and>
         (snd (GS308EP_CLI_cyclePort port delayMs json quiet s) = snd on \<or>
          (\<exists>txt. snd (GS308EP_CLI_cyclePort port delayMs json quiet s) =
                   emit (Out txt) (snd on) \<or>
                 snd (GS308EP_CLI_cyclePort port delayMs json quiet s) =
                   emit (Err txt) (snd on)))"
    by (rule CLI_cyclePort_off_done)
next
  show "GS308EP_cyclePoEPort port' delayMs' t =
     (if \<not> fst (GS308EP_turnOffPoEPort port' t)
      then (False, snd (GS308EP_turnOffPoEPort port' t))
      else GS308EP_turnOnPoEPort port'
             (emit (Delay (unat delayMs')) (snd (GS308EP_turnOffPoEPort port' t))))"
    by (rule GS308EP_cyclePoEPort_steps)
qed

text \<open>Two sessions of the tool: in the first the switch answers the state-change POST of
  the off-step with status 500, in the second it answers every request with 200.\<close>

lemma cyclePort_steps_example:
  "\<not> fst (GS308EP_CLI_setPortState 3 False
           (cli_session [Reply 200 [] config_page, Reply 500 [] [],
                         Reply 200 [] config_page, Reply 200 [] []]))
   \<and> \<not> fst (GS308EP_CLI_cyclePort 3 2000 False False
           (cli_session [Reply 200 [] config_page, Reply 500 [] [],
                         Reply 200 [] config_page, Reply 200 [] []]))
   \<and> length (exchanges (trace (snd (GS308EP_CLI_cyclePort 3 2000 False False
           (cli_session [Reply 200 [] config_page, Reply 500 [] [],
                         Reply 200 [] config_page, Reply 200 [] []]))))) = 2
   \<and> fst (GS308EP_CLI_setPortState 3 False
           (cli_session [Reply 200 [] config_page, Reply 200 [] [],
                         Reply 200 [] config_page, Reply 200 [] []]))
   \<and> fst (GS308EP_CLI_cyclePort 3 2000 False False
           (cli_session [Reply 200 [] config_page, Reply 200 [] [],
                         Reply 200 [] config_page, Reply 200 [] []]))
   \<and> Usleep 2000000 \<in> set (trace (snd (GS308EP_CLI_cyclePort 3 2000 False False
           (cli_session [Reply 200 [] config_page, Reply 200 [] [],
                         Reply 200 [] config_page, Reply 200 [] []]))))"
proof -
  let ?a = "cli_session [Reply 200 [] config_page, Reply 500 [] [],
                         Reply 200 [] config_page, Reply 200 [] []]"
  let ?b = "cli_session [Reply 200 [] config_page, Reply 200 [] [],
                         Reply 200 [] config_page, Reply 200 [] []]"
  have off_a: "\<not> fst (GS308EP_CLI_setPortState 3 False ?a)"
    by code_simp
  have off_b: "fst (GS308EP_CLI_setPortState 3 False ?b)"
    by code_simp
  have cyc_a: "\<not> fst (GS308EP_CLI_cyclePort 3 2000 False False ?a)"
    using cyclePort_steps[of 3 ?a 2000 False False] off_a by blast
  have n_a: "length (exchanges (trace (snd (GS308EP_CLI_cyclePort 3 2000 False False ?a)))) = 2"
    by code_simp
  have cyc_b: "fst (GS308EP_CLI_cyclePort 3 2000 False False ?b)"
    by code_simp
  have sl_b: "Usleep 2000000 \<in> set (trace (snd (GS308EP_CLI_cyclePort 3 2000 False False ?b)))"
    by code_simp
  show ?thesis
    using off_a off_b cyc_a n_a cyc_b sl_b by blast
qed

text \<open>As long as the product fits into 32 bits, that is for delays up to 4294967 ms, the
  tool sleeps \<^verbatim>\<open>delayMs\<close> milliseconds.\<close>

lemma CLI_cyclePort_sleep_in_range:
  fixes delayMs :: int
  assumes "0 \<le> delayMs" and "delayMs \<le> 4294967"
  shows "(delayMs * 1000) mod 2 ^ 32 = delayMs * 1000"
proof -
  have "0 \<le> delayMs * 1000" and "delayMs * 1000 < 2 ^ 32"
    using assms by simp_all
  then show ?thesis
    by (rule mod_pos_pos_trivial)
qed

text \<open>
  Claim C5. If the off-step of \<^verbatim>\<open>cyclePort\<close> fails, the on-step is never run; if it
  succeeds, \<^verbatim>\<open>cyclePort\<close> waits \<^verbatim>\<open>delayMs\<close> and returns the result of the on-step. The first
  half holds (see \<open>cyclePort_steps\<close>). The second half fails in the tool for a delay
  whose product with 1000 does not fit into 32 bits: in quiet mode, with every request
  answered by status 200 and a delay of 5000000 ms, both steps succeed and the one call
  of \<^verbatim>\<open>usleep\<close> receives 705032704 microseconds, about 705 seconds in place of 5000.
\<close>

theorem CLI_cyclePort_sleep_wraps_around:
  "fst (GS308EP_CLI_setPortState 3 False
          (cli_session [Reply 200 [] config_page, Reply 200 [] [],
                        Reply 200 [] config_page, Reply 200 [] []]))
   \<and> fst (GS308EP_CLI_cyclePort 3 5000000 False True
          (cli_session [Reply 200 [] config_page, Reply 200 [] [],
                        Reply 200 [] config_page, Reply 200 [] []]))
   \<and> sleeps (trace (snd (GS308EP_CLI_cyclePort 3 5000000 False True
          (cli_session [Reply 200 [] config_page, Reply 200 [] [],
                        Reply 200 [] config_page, Reply 200 [] []])))) = [705032704]
   \<and> (705032704 :: int) < 5000000 * 1000"
  by code_simp

section \<open>Login\<close>

lemma post_bodies_append: "post_bodies (xs @ ys) = post_bodies xs @ post_bodies ys"
  by (induction xs rule: post_bodies.induct) auto

lemma log_fields:
  "pending (log m s) = pending s"
  "cookie_sid (log m s) = cookie_sid s"
  "last_response_code (log m s) = last_response_code s"
  "cli_password (log m s) = cli_password s"
  "host (log m s) = host s"
  "verbose (log m s) = verbose s"
  "client_hash (log m s) = client_hash s"
  "cli_authenticated (log m s) = cli_authenticated s"
  "post_bodies (trace (log m s)) = post_bodies (trace s)"
  "exchanges (trace (log m s)) = exchanges (trace s)"
  by (simp_all add: log_def emit_def post_bodies_append exchanges_append)

lemma error_fields:
  "pending (error m s) = pending s"
  "cookie_sid (error m s) = cookie_sid s"
  "last_response_code (error m s) = last_response_code s"
  "cli_password (error m s) = cli_password s"
  "host (error m s) = host s"
  "verbose (error m s) = verbose s"
  "client_hash (error m s) = client_hash s"
  "cli_authenticated (error m s) = cli_authenticated s"
  "post_bodies (trace (error m s)) = post_bodies (trace s)"
  "exchanges (trace (error m s)) = exchanges (trace s)"
  "last (trace (error m s)) = Err (''[ERROR] '' @ m)"
  by (simp_all add: error_def emit_def post_bodies_append exchanges_append)

lemma CLI_httpGet_Reply:
  assumes "pending s = Reply c h b # rest"
  shows "fst (GS308EP_CLI_httpGet path s) = b"
    and "pending (snd (GS308EP_CLI_httpGet path s)) = rest"
    and "last_response_code (snd (GS308EP_CLI_httpGet path s)) = c"
    and "cookie_sid (snd (GS308EP_CLI_httpGet path s)) =
           (if GS308EP_CLI_extractCookie h \<noteq> [] then GS308EP_CLI_extractCookie h
            else cookie_sid s)"
    and "cli_password (snd (GS308EP_CLI_httpGet path s)) = cli_password s"
    and "host (snd (GS308EP_CLI_httpGet path s)) = host s"
    and "verbose (snd (GS308EP_CLI_httpGet path s)) = verbose s"
    and "cli_authenticated (snd (GS308EP_CLI_httpGet path s)) = cli_authenticated s"
    and "post_bodies (trace (snd (GS308EP_CLI_httpGet path s))) = post_bodies (trace s)"
  using assms
  unfolding GS308EP_CLI_httpGet_def transport_def log_def emit_def
  by (simp_all add: Let_def post_bodies_append)

lemma CLI_httpPost_Reply:
  assumes "pending s = Reply c h b # rest"
  shows "fst (GS308EP_CLI_httpPost path data s) = b"
    and "pending (snd (GS308EP_CLI_httpPost path data s)) = rest"
    and "last_response_code (snd (GS308EP_CLI_httpPost path data s)) = c"
    and "cookie_sid (snd (GS308EP_CLI_httpPost path data s)) =
           (if GS308EP_CLI_extractCookie h \<noteq> [] then GS308EP_CLI_extractCookie h
            else cookie_sid s)"
    and "cli_password (snd (GS308EP_CLI_httpPost path data s)) = cli_password s"
    and "host (snd (GS308EP_CLI_httpPost path data s)) = host s"
    and "verbose (snd (GS308EP_CLI_httpPost path data s)) = verbose s"
    and "cli_authenticated (snd (GS308EP_CLI_httpPost path data s)) = cli_authenticated s"
    and "post_bodies (trace (snd (GS308EP_CLI_httpPost path data s))) =
           post_bodies (trace s) @ [data]"
  using assms
  unfolding GS308EP_CLI_httpPost_def transport_def log_def emit_def
  by (simp_all add: Let_def post_bodies_append)

lemma CLI_login_two_replies:
  assumes p: "pending s = Reply c1 h1 b1 # Reply c2 h2 b2 # rest"
  shows "fst (GS308EP_CLI_login s) =
           (c1 = 200 \<and> GS308EP_CLI_extractRand b1 \<noteq> [] \<and> c2 = 200 \<and>
            (GS308EP_CLI_extractCookie h2 \<noteq> [] \<or> GS308EP_CLI_extractCookie h1 \<noteq> [] \<or>
             cookie_sid s \<noteq> []))"
proof -
  obtain loginPage s1 where g: "GS308EP_CLI_httpGet LOGIN_URL s = (loginPage, s1)"
    by (cases "GS308EP_CLI_httpGet LOGIN_URL s")
  note G = CLI_httpGet_Reply[OF p, of LOGIN_URL, unfolded g fst_conv snd_conv]
  define rand where "rand = GS308EP_CLI_extractRand b1"
  define s3 where "s3 = log (''Password hash: '' @ mergeHash (cli_password s1) rand)
                          (log (''Rand token: '' @ rand) s1)"
  have p3: "pending s3 = Reply c2 h2 b2 # rest"
    by (simp add: s3_def log_fields G)
  obtain response s4
    where q: "GS308EP_CLI_httpPost LOGIN_URL (''password='' @ mergeHash (cli_password s1) rand) s3
              = (response, s4)"
    by (cases "GS308EP_CLI_httpPost LOGIN_URL (''password='' @ mergeHash (cli_password s1) rand) s3")
  note P = CLI_httpPost_Reply[OF p3, of LOGIN_URL "''password='' @ mergeHash (cli_password s1) rand",
      unfolded q fst_conv snd_conv]
  have c3: "cookie_sid s3 = cookie_sid s1"
    by (simp add: s3_def log_fields)
  show ?thesis
    using g q G(1,3,4) P(3,4) c3
    by (auto simp: GS308EP_CLI_login_def Let_def rand_def s3_def log_fields)
qed

lemma CLI_httpPost_bodies:
  "post_bodies (trace (snd (GS308EP_CLI_httpPost path data s))) = post_bodies (trace s) @ [data]"
  unfolding GS308EP_CLI_httpPost_def transport_def log_def error_def emit_def
  by (simp add: Let_def post_bodies_append split: list.splits reply.splits)

lemma CLI_login_rand:
  assumes p: "pending s = Reply 200 h1 b1 # rest"
  shows "post_bodies (trace (snd (GS308EP_CLI_login s))) =
           post_bodies (trace s) @
           (if GS308EP_CLI_extractRand b1 = [] then []
            else [''password='' @ md5Hash (cli_password s @ GS308EP_CLI_extractRand b1)])"
    and "GS308EP_CLI_extractRand b1 = [] \<Longrightarrow> \<not> fst (GS308EP_CLI_login s)"
    and "GS308EP_CLI_extractRand b1 = [] \<Longrightarrow>
           last (trace (snd (GS308EP_CLI_login s))) = Err ''[ERROR] Failed to extract rand token''"
proof -
  obtain loginPage s1 where g: "GS308EP_CLI_httpGet LOGIN_URL s = (loginPage, s1)"
    by (cases "GS308EP_CLI_httpGet LOGIN_URL s")
  note G = CLI_httpGet_Reply[OF p, of LOGIN_URL, unfolded g fst_conv snd_conv]
  define rand where "rand = GS308EP_CLI_extractRand b1"
  define s3 where "s3 = log (''Password hash: '' @ mergeHash (cli_password s1) rand)
                          (log (''Rand token: '' @ rand) s1)"
  obtain response s4
    where q: "GS308EP_CLI_httpPost LOGIN_URL (''password='' @ mergeHash (cli_password s1) rand) s3
              = (response, s4)"
    by (cases "GS308EP_CLI_httpPost LOGIN_URL (''password='' @ mergeHash (cli_password s1) rand) s3")
  have b4: "post_bodies (trace s4) =
            post_bodies (trace s) @ [''password='' @ md5Hash (cli_password s @ rand)]"
    using CLI_httpPost_bodies[of LOGIN_URL "''password='' @ mergeHash (cli_password s1) rand" s3] q
    by (simp add: s3_def log_fields G mergeHash_def)
  show "post_bodies (trace (snd (GS308EP_CLI_login s))) =
           post_bodies (trace s) @
           (if GS308EP_CLI_extractRand b1 = [] then []
            else [''password='' @ md5Hash (cli_password s @ GS308EP_CLI_extractRand b1)])"
    using g q G(1,3,5,9) b4
    by (auto simp: GS308EP_CLI_login_def Let_def rand_def s3_def log_fields error_fields)
  show "GS308EP_CLI_extractRand b1 = [] \<Longrightarrow> \<not> fst (GS308EP_CLI_login s)"
    using g G(1,3) by (simp add: GS308EP_CLI_login_def Let_def)
  show "GS308EP_CLI_extractRand b1 = [] \<Longrightarrow>
           last (trace (snd (GS308EP_CLI_login s))) = Err ''[ERROR] Failed to extract rand token''"
    using g G(1,3) by (simp add: GS308EP_CLI_login_def Let_def error_fields)
qed

lemma GS308EP_extractCookie_fst_indep:
  "fst (GS308EP_extractCookie h s) = fst (GS308EP_extractCookie h s')"
  unfolding GS308EP_extractCookie_def
  by (simp add: Let_def split: option.splits)

lemma GS308EP_extractCookie_fresh:
  "cookieSID s = [] \<Longrightarrow>
   (cookieSID (snd (GS308EP_extractCookie h s)) \<noteq> []) = fst (GS308EP_extractCookie h s)"
  unfolding GS308EP_extractCookie_def
  by (simp add: Let_def split: option.splits)

lemma GS308EP_httpGet_Reply:
  assumes "pending s = Reply c h b # rest"
  shows "fst (GS308EP_httpGet url s) = (if c = 200 then b else [])"
    and "pending (snd (GS308EP_httpGet url s)) = rest"
    and "lastResponseCode (snd (GS308EP_httpGet url s)) = c"
    and "c \<noteq> 200 \<or> h = [] \<Longrightarrow> cookieSID (snd (GS308EP_httpGet url s)) = cookieSID s"
    and "password (snd (GS308EP_httpGet url s)) = password s"
    and "ip (snd (GS308EP_httpGet url s)) = ip s"
    and "authenticated (snd (GS308EP_httpGet url s)) = authenticated s"
    and "post_bodies (trace (snd (GS308EP_httpGet url s))) = post_bodies (trace s)"
  using assms
  unfolding GS308EP_httpGet_def transport_def emit_def
  by (simp_all add: Let_def post_bodies_append GS308EP_extractCookie_frame)

lemma GS308EP_httpPost_bodies:
  "post_bodies (trace (snd (GS308EP_httpPost url data s))) = post_bodies (trace s) @ [data]"
  unfolding GS308EP_httpPost_def transport_def emit_def
  by (simp add: Let_def post_bodies_append GS308EP_extractCookie_frame
      split: list.splits reply.splits)

lemma GS308EP_httpPost_Reply:
  assumes p: "pending s = Reply c h b # rest"
  shows "lastResponseCode (snd (GS308EP_httpPost url data s)) = c"
    and "c \<noteq> 200 \<or> h = [] \<Longrightarrow> cookieSID (snd (GS308EP_httpPost url data s)) = cookieSID s"
    and "c = 200 \<and> h \<noteq> [] \<and> cookieSID s = [] \<Longrightarrow>
           (cookieSID (snd (GS308EP_httpPost url data s)) \<noteq> []) = fst (GS308EP_extractCookie h s)"
proof -
  show "lastResponseCode (snd (GS308EP_httpPost url data s)) = c"
    using p unfolding GS308EP_httpPost_def transport_def emit_def
    by (simp add: Let_def GS308EP_extractCookie_frame)
  show "c \<noteq> 200 \<or> h = [] \<Longrightarrow> cookieSID (snd (GS308EP_httpPost url data s)) = cookieSID s"
    using p unfolding GS308EP_httpPost_def transport_def emit_def
    by (auto simp: Let_def)
  assume a: "c = 200 \<and> h \<noteq> [] \<and> cookieSID s = []"
  define s2 where "s2 = (emit (Exchange POST url data None (Reply c h b))
                           (s\<lparr>pending := rest\<rparr>))\<lparr>lastResponseCode := c\<rparr>"
  have e: "snd (GS308EP_httpPost url data s) = snd (GS308EP_extractCookie h s2)"
    using p a unfolding GS308EP_httpPost_def transport_def
    by (simp add: Let_def s2_def)
  have "cookieSID s2 = []"
    using a by (simp add: s2_def emit_def)
  then have "(cookieSID (snd (GS308EP_extractCookie h s2)) \<noteq> []) = fst (GS308EP_extractCookie h s2)"
    by (rule GS308EP_extractCookie_fresh)
  also have "\<dots> = fst (GS308EP_extractCookie h s)"
    by (rule GS308EP_extractCookie_fst_indep)
  finally show "(cookieSID (snd (GS308EP_httpPost url data s)) \<noteq> []) = fst (GS308EP_extractCookie h s)"
    using e by simp
qed

lemma GS308EP_login_fresh:
  assumes p: "pending t = Reply c1 [] b1 # Reply c2 h2 b2 # rest"
      and fresh: "cookieSID t = []"
  shows "fst (GS308EP_login t) =
           (c1 = 200 \<and> b1 \<noteq> [] \<and> c2 = 200 \<and> h2 \<noteq> [] \<and> fst (GS308EP_extractCookie h2 t))"
proof -
  obtain response s1 where g: "GS308EP_httpGet (login_url t) t = (response, s1)"
    by (cases "GS308EP_httpGet (login_url t) t")
  note G = GS308EP_httpGet_Reply[OF p, of "login_url t", unfolded g fst_conv snd_conv]
  have c1: "cookieSID s1 = []"
    using G(4) fresh by simp
  show ?thesis
  proof (cases "c1 = 200 \<and> b1 \<noteq> []")
    case False
    then show ?thesis
      using g G(1) by (auto simp: GS308EP_login_def GS308EP_fetchLoginPage_def Let_def)
  next
    case True
    define s1' where "s1' = s1\<lparr>clientHash :=
        (if GS308EP_extractRand b1 = [] then md5Hash (password s1)
         else mergeHash (password s1) (GS308EP_extractRand b1))\<rparr>"
    have f: "GS308EP_fetchLoginPage t = (True, s1')"
      using g G(1) True by (simp add: GS308EP_fetchLoginPage_def Let_def s1'_def)
    have p1: "pending s1' = Reply c2 h2 b2 # rest" and k1: "cookieSID s1' = []"
      using G(2) c1 by (simp_all add: s1'_def)
    obtain response' s2
      where q: "GS308EP_httpPost (login_url s1') (''password='' @ clientHash s1') s1' = (response', s2)"
      by (cases "GS308EP_httpPost (login_url s1') (''password='' @ clientHash s1') s1'")
    note P = GS308EP_httpPost_Reply[OF p1, of "login_url s1'" "''password='' @ clientHash s1'",
        unfolded q snd_conv]
    have r: "fst (GS308EP_login t) = (cookieSID s2 \<noteq> [])"
      using f q by (simp add: GS308EP_login_def Let_def)
    have "(cookieSID s2 \<noteq> []) = (c2 = 200 \<and> h2 \<noteq> [] \<and> fst (GS308EP_extractCookie h2 t))"
    proof (cases "c2 = 200 \<and> h2 \<noteq> []")
      case True
      then show ?thesis
        using P(3) k1 GS308EP_extractCookie_fst_indep[of h2 s1' t] by simp
    next
      case False
      then show ?thesis using P(2) k1 by auto
    qed
    then show ?thesis using r True by simp
  qed
qed

lemma GS308EP_login_rand:
  assumes p: "pending t = Reply 200 h1 b1 # rest" and b: "b1 \<noteq> []"
  shows "post_bodies (trace (snd (GS308EP_login t))) =
           post_bodies (trace t) @
           [''password='' @
            (if GS308EP_extractRand b1 = [] then md5Hash (password t)
             else md5Hash (password t @ GS308EP_extractRand b1))]"
proof -
  obtain response s1 where g: "GS308EP_httpGet (login_url t) t = (response, s1)"
    by (cases "GS308EP_httpGet (login_url t) t")
  note G = GS308EP_httpGet_Reply[OF p, of "login_url t", unfolded g fst_conv snd_conv]
  define s1' where "s1' = s1\<lparr>clientHash :=
      (if GS308EP_extractRand b1 = [] then md5Hash (password s1)
       else mergeHash (password s1) (GS308EP_extractRand b1))\<rparr>"
  have f: "GS308EP_fetchLoginPage t = (True, s1')"
    using g G(1) b by (simp add: GS308EP_fetchLoginPage_def Let_def s1'_def)
  obtain response' s2
    where q: "GS308EP_httpPost (login_url s1') (''password='' @ clientHash s1') s1' = (response', s2)"
    by (cases "GS308EP_httpPost (login_url s1') (''password='' @ clientHash s1') s1'")
  have "post_bodies (trace s2) = post_bodies (trace s1') @ [''password='' @ clientHash s1']"
    using GS308EP_httpPost_bodies[of "login_url s1'" "''password='' @ clientHash s1'" s1'] q by simp
  moreover have "post_bodies (trace s1') = post_bodies (trace t)"
    using G(8) by (simp add: s1'_def)
  moreover have "clientHash s1' =
      (if GS308EP_extractRand b1 = [] then md5Hash (password t)
       else md5Hash (password t @ GS308EP_extractRand b1))"
    using G(5) by (simp add: s1'_def mergeHash_def)
  moreover have "snd (GS308EP_login t) = s2\<lparr>authenticated := (cookieSID s2 \<noteq> [])\<rparr>"
    using f q by (simp add: GS308EP_login_def Let_def)
  ultimately show ?thesis by simp
qed


lemma CLI_login_failed_last:
  assumes p: "pending s = Reply c1 h1 b1 # Reply c2 h2 b2 # rest"
      and f: "c1 = 200 \<and> GS308EP_CLI_extractRand b1 \<noteq> [] \<and> \<not> fst (GS308EP_CLI_login s)"
  shows "last (trace (snd (GS308EP_CLI_login s))) = Err ''[ERROR] Authentication failed''"
proof -
  obtain loginPage s1 where g: "GS308EP_CLI_httpGet LOGIN_URL s = (loginPage, s1)"
    by (cases "GS308EP_CLI_httpGet LOGIN_URL s")
  note G = CLI_httpGet_Reply[OF p, of LOGIN_URL, unfolded g fst_conv snd_conv]
  define rand where "rand = GS308EP_CLI_extractRand b1"
  define s3 where "s3 = log (''Password hash: '' @ mergeHash (cli_password s1) rand)
                          (log (''Rand token: '' @ rand) s1)"
  obtain response s4
    where q: "GS308EP_CLI_httpPost LOGIN_URL (''password='' @ mergeHash (cli_password s1) rand) s3
              = (response, s4)"
    by (cases "GS308EP_CLI_httpPost LOGIN_URL (''password='' @ mergeHash (cli_password s1) rand) s3")
  show ?thesis
    using g q G(1,3) f
    by (auto simp: GS308EP_CLI_login_def Let_def rand_def s3_def log_fields error_fields
        split: if_splits)
qed

lemma GS308EP_extractCookie_cookie_indep:
  "cookieSID s = cookieSID s' \<Longrightarrow>
   cookieSID (snd (GS308EP_extractCookie h s)) = cookieSID (snd (GS308EP_extractCookie h s'))"
  unfolding GS308EP_extractCookie_def
  by (simp add: Let_def split: option.splits)

lemma GS308EP_httpGet_cookie:
  assumes p: "pending s = Reply c h b # rest"
  shows "cookieSID (snd (GS308EP_httpGet url s)) =
           (if c = 200 \<and> h \<noteq> [] then cookieSID (snd (GS308EP_extractCookie h s))
            else cookieSID s)"
proof (cases "c = 200 \<and> h \<noteq> []")
  case False
  then show ?thesis
    using GS308EP_httpGet_Reply(4)[OF p, of url] by auto
next
  case True
  define s2 where "s2 = (emit (Exchange GET url [] (if cookieSID s \<noteq> [] then Some (''SID='' @ cookieSID s) else None) (Reply c h b))
                           (s\<lparr>pending := rest\<rparr>))\<lparr>lastResponseCode := c\<rparr>"
  have e: "snd (GS308EP_httpGet url s) = snd (GS308EP_extractCookie h s2)"
    using p True unfolding GS308EP_httpGet_def transport_def
    by (simp add: Let_def s2_def)
  have "cookieSID s2 = cookieSID s"
    by (simp add: s2_def emit_def)
  then have "cookieSID (snd (GS308EP_extractCookie h s2)) = cookieSID (snd (GS308EP_extractCookie h s))"
    by (rule GS308EP_extractCookie_cookie_indep)
  then show ?thesis using e True by simp
qed

lemma GS308EP_httpPost_cookie:
  assumes p: "pending s = Reply c h b # rest"
  shows "cookieSID (snd (GS308EP_httpPost url data s)) =
           (if c = 200 \<and> h \<noteq> [] then cookieSID (snd (GS308EP_extractCookie h s))
            else cookieSID s)"
proof (cases "c = 200 \<and> h \<noteq> []")
  case False
  then show ?thesis
    using GS308EP_httpPost_Reply(2)[OF p, of url data] by auto
next
  case True
  define s2 where "s2 = (emit (Exchange POST url data (if cookieSID s \<noteq> [] then Some (''SID='' @ cookieSID s) else None) (Reply c h b))
                           (s\<lparr>pending := rest\<rparr>))\<lparr>lastResponseCode := c\<rparr>"
  have e: "snd (GS308EP_httpPost url data s) = snd (GS308EP_extractCookie h s2)"
    using p True unfolding GS308EP_httpPost_def transport_def
    by (simp add: Let_def s2_def)
  have "cookieSID s2 = cookieSID s"
    by (simp add: s2_def emit_def)
  then have "cookieSID (snd (GS308EP_extractCookie h s2)) = cookieSID (snd (GS308EP_extractCookie h s))"
    by (rule GS308EP_extractCookie_cookie_indep)
  then show ?thesis using e True by simp
qed

lemma GS308EP_login_two_replies:
  assumes p: "pending t = Reply c1 h1 b1 # Reply c2 h2 b2 # rest"
  shows "fst (GS308EP_login t) =
           (c1 = 200 \<and> b1 \<noteq> [] \<and>
            (let k1 = (if c1 = 200 \<and> h1 \<noteq> [] then cookieSID (snd (GS308EP_extractCookie h1 t))
                       else cookieSID t);
                 k2 = (if c2 = 200 \<and> h2 \<noteq> []
                       then cookieSID (snd (GS308EP_extractCookie h2 (t\<lparr>cookieSID := k1\<rparr>)))
                       else k1)
             in k2 \<noteq> []))"
proof -
  obtain response s1 where g: "GS308EP_httpGet (login_url t) t = (response, s1)"
    by (cases "GS308EP_httpGet (login_url t) t")
  note G = GS308EP_httpGet_Reply[OF p, of "login_url t", unfolded g fst_conv snd_conv]
  note K = GS308EP_httpGet_cookie[OF p, of "login_url t", unfolded g snd_conv]
  define k1 where "k1 = (if c1 = 200 \<and> h1 \<noteq> [] then cookieSID (snd (GS308EP_extractCookie h1 t))
                       else cookieSID t)"
  have c1: "cookieSID s1 = k1"
    using K by (simp add: k1_def)
  show ?thesis
  proof (cases "c1 = 200 \<and> b1 \<noteq> []")
    case False
    then show ?thesis
      using g G(1) by (auto simp: GS308EP_login_def GS308EP_fetchLoginPage_def Let_def)
  next
    case True
    define s1' where "s1' = s1\<lparr>clientHash :=
        (if GS308EP_extractRand b1 = [] then md5Hash (password s1)
         else mergeHash (password s1) (GS308EP_extractRand b1))\<rparr>"
    have f: "GS308EP_fetchLoginPage t = (True, s1')"
      using g G(1) True by (simp add: GS308EP_fetchLoginPage_def Let_def s1'_def)
    have p1: "pending s1' = Reply c2 h2 b2 # rest" and k1': "cookieSID s1' = k1"
      using G(2) c1 by (simp_all add: s1'_def)
    obtain response' s2
      where q: "GS308EP_httpPost (login_url s1') (''password='' @ clientHash s1') s1' = (response', s2)"
      by (cases "GS308EP_httpPost (login_url s1') (''password='' @ clientHash s1') s1'")
    note P = GS308EP_httpPost_cookie[OF p1, of "login_url s1'" "''password='' @ clientHash s1'",
        unfolded q snd_conv]
    have r: "fst (GS308EP_login t) = (cookieSID s2 \<noteq> [])"
      using f q by (simp add: GS308EP_login_def Let_def)
    have i: "cookieSID (snd (GS308EP_extractCookie h2 s1')) =
             cookieSID (snd (GS308EP_extractCookie h2 (t\<lparr>cookieSID := k1\<rparr>)))"
      by (rule GS308EP_extractCookie_cookie_indep) (simp add: k1')
    have "cookieSID s2 =
            (if c2 = 200 \<and> h2 \<noteq> []
             then cookieSID (snd (GS308EP_extractCookie h2 (t\<lparr>cookieSID := k1\<rparr>)))
             else k1)"
      using P i k1' by simp
    then show ?thesis
      using r True by (simp add: Let_def k1_def)
  qed
qed


lemma GS308EP_login_cookie_after:
  assumes p: "pending t = Reply c1 h1 b1 # Reply c2 h2 b2 # rest"
  shows "fst (GS308EP_login t) =
           (c1 = 200 \<and> b1 \<noteq> [] \<and>
            GS308EP_cookie_after c2 h2 (t\<lparr>cookieSID := GS308EP_cookie_after c1 h1 t\<rparr>) \<noteq> [])"
  using GS308EP_login_two_replies[OF p]
  by (simp add: GS308EP_cookie_after_def Let_def)

lemma GS308EP_login_no_cookie_after_page:
  assumes p: "pending t = Reply c1 h1 b1 # Reply c2 h2 b2 # rest"
      and k: "GS308EP_cookie_after c1 h1 t = []"
  shows "fst (GS308EP_login t) =
           (c1 = 200 \<and> b1 \<noteq> [] \<and> c2 = 200 \<and> h2 \<noteq> [] \<and> fst (GS308EP_extractCookie h2 t))"
proof -
  have "(cookieSID (snd (GS308EP_extractCookie h2 (t\<lparr>cookieSID := []\<rparr>))) \<noteq> []) =
        fst (GS308EP_extractCookie h2 (t\<lparr>cookieSID := []\<rparr>))"
    by (rule GS308EP_extractCookie_fresh) simp
  also have "\<dots> = fst (GS308EP_extractCookie h2 t)"
    by (rule GS308EP_extractCookie_fst_indep)
  finally have e: "(cookieSID (snd (GS308EP_extractCookie h2 (t\<lparr>cookieSID := []\<rparr>))) \<noteq> []) =
        fst (GS308EP_extractCookie h2 t)" .
  show ?thesis
    using GS308EP_login_cookie_after[OF p] k e
    by (auto simp: GS308EP_cookie_after_def)
qed

text \<open>
  Claim C2, as amended. The claim lets login succeed on any status of the POST as long
  as its answer carries the cookie; neither implementation does. For a tool session
  whose next two answers are the login page and the answer to the POST, login succeeds
  if and only if the page came with status 200 and holds a \<^verbatim>\<open>rand\<close> token, the POST was
  answered with status 200, and a cookie is held at the end: the one of the POST's
  answer, the one of the page's answer, or one held before. When the tool got the page
  and the token and login fails, the last line it writes is the error
  \<^verbatim>\<open>Authentication failed\<close>. For a library session whose next two answers are the login
  page and the answer to the POST, login succeeds if and only if the page came with
  status 200 and is not empty and a non-empty cookie is held after the POST; the library
  does not test the status of the POST, but it reads the \<^verbatim>\<open>Set-Cookie\<close> header of an
  answer, to the GET and to the POST alike, only at status 200. So when no cookie is held
  after the page was fetched, login succeeds if and only if, in addition, the POST was
  answered with status 200 and its \<^verbatim>\<open>Set-Cookie\<close> header yields a non-empty value.
\<close>

theorem login_succeeds_iff_status_200_and_cookie:
  "(pending s = Reply c1 h1 b1 # Reply c2 h2 b2 # rest \<longrightarrow>
      fst (GS308EP_CLI_login s) =
        (c1 = 200 \<and> GS308EP_CLI_extractRand b1 \<noteq> [] \<and> c2 = 200 \<and>
         (GS308EP_CLI_extractCookie h2 \<noteq> [] \<or> GS308EP_CLI_extractCookie h1 \<noteq> [] \<or>
          cookie_sid s \<noteq> [])) \<and>
      (c1 = 200 \<and> GS308EP_CLI_extractRand b1 \<noteq> [] \<and> \<not> fst (GS308EP_CLI_login s) \<longrightarrow>
         last (trace (snd (GS308EP_CLI_login s))) = Err ''[ERROR] Authentication failed''))
   \<and>
   (pending t = Reply c1' h1' b1' # Reply c2' h2' b2' # rest' \<longrightarrow>
      fst (GS308EP_login t) =
        (c1' = 200 \<and> b1' \<noteq> [] \<and>
         GS308EP_cookie_after c2' h2' (t\<lparr>cookieSID := GS308EP_cookie_after c1' h1' t\<rparr>) \<noteq> []) \<and>
      (GS308EP_cookie_after c1' h1' t = [] \<longrightarrow>
         fst (GS308EP_login t) =
           (c1' = 200 \<and> b1' \<noteq> [] \<and> c2' = 200 \<and> h2' \<noteq> [] \<and>
            fst (GS308EP_extractCookie h2' t))))"
proof (intro conjI impI)
  assume p: "pending s = Reply c1 h1 b1 # Reply c2 h2 b2 # rest"
  then show "fst (GS308EP_CLI_login s) =
        (c1 = 200 \<and> GS308EP_CLI_extractRand b1 \<noteq> [] \<and> c2 = 200 \<and>
         (GS308EP_CLI_extractCookie h2 \<noteq> [] \<or> GS308EP_CLI_extractCookie h1 \<noteq> [] \<or>
          cookie_sid s \<noteq> []))"
    by (rule CLI_login_two_replies)
  assume "c1 = 200 \<and> GS308EP_CLI_extractRand b1 \<noteq> [] \<and> \<not> fst (GS308EP_CLI_login s)"
  with p show "last (trace (snd (GS308EP_CLI_login s))) = Err ''[ERROR] Authentication failed''"
    by (rule CLI_login_failed_last)
next
  assume p: "pending t = Reply c1' h1' b1' # Reply c2' h2' b2' # rest'"
  then show "fst (GS308EP_login t) =
        (c1' = 200 \<and> b1' \<noteq> [] \<and>
         GS308EP_cookie_after c2' h2' (t\<lparr>cookieSID := GS308EP_cookie_after c1' h1' t\<rparr>) \<noteq> [])"
    by (rule GS308EP_login_cookie_after)
  assume "GS308EP_cookie_after c1' h1' t = []"
  with p show "fst (GS308EP_login t) =
           (c1' = 200 \<and> b1' \<noteq> [] \<and> c2' = 200 \<and> h2' \<noteq> [] \<and>
            fst (GS308EP_extractCookie h2' t))"
    by (rule GS308EP_login_no_cookie_after_page)
qed

text \<open>Three sessions without a cookie: the tool and the library log in on a POST that
  is answered with status 200 and the cookie; the library also logs in when the answer to
  the login page has set the cookie and the POST is answered with status 302.\<close>

theorem login_succeeds_iff_status_200_and_cookie_witness:
  "pending (cli_fresh [Reply 200 [] login_page, Reply 200 cookie_headers []]) =
     [Reply 200 [] login_page, Reply 200 cookie_headers []]
   \<and> fst (GS308EP_CLI_login (cli_fresh [Reply 200 [] login_page, Reply 200 cookie_headers []]))
   \<and> pending (lib_fresh [Reply 200 [] login_page, Reply 200 cookie_line []]) =
     [Reply 200 [] login_page, Reply 200 cookie_line []]
   \<and> GS308EP_cookie_after 200 []
        (lib_fresh [Reply 200 [] login_page, Reply 200 cookie_line []]) = []
   \<and> fst (GS308EP_login (lib_fresh [Reply 200 [] login_page, Reply 200 cookie_line []]))
   \<and> GS308EP_cookie_after 200 cookie_line
        (lib_fresh [Reply 200 cookie_line login_page, Reply 302 [] []]) = ''abc123''
   \<and> fst (GS308EP_login (lib_fresh [Reply 200 cookie_line login_page, Reply 302 [] []]))"
proof -
  let ?s = "cli_fresh [Reply 200 [] login_page, Reply 200 cookie_headers []]"
  let ?t = "lib_fresh [Reply 200 [] login_page, Reply 200 cookie_line []]"
  let ?u = "lib_fresh [Reply 200 cookie_line login_page, Reply 302 [] []]"
  have ps: "pending ?s = Reply 200 [] login_page # Reply 200 cookie_headers [] # []"
    and pt: "pending ?t = Reply 200 [] login_page # Reply 200 cookie_line [] # []"
    and pu: "pending ?u = Reply 200 cookie_line login_page # Reply 302 [] [] # []"
    by (simp_all add: cli_fresh_def lib_fresh_def)
  have r: "GS308EP_CLI_extractRand login_page \<noteq> []"
    by code_simp
  have k: "GS308EP_CLI_extractCookie cookie_headers \<noteq> []"
    by code_simp
  have n: "login_page \<noteq> []" "cookie_line \<noteq> []"
    by (simp_all add: login_page_def cookie_line_def)
  have e: "fst (GS308EP_extractCookie cookie_line ?t)"
    by code_simp
  have kt: "GS308EP_cookie_after 200 [] ?t = []"
    by (simp add: GS308EP_cookie_after_def lib_fresh_def)
  have ku: "GS308EP_cookie_after 200 cookie_line ?u = ''abc123''"
    by code_simp
  have ku': "GS308EP_cookie_after 302 [] (?u\<lparr>cookieSID := ''abc123''\<rparr>) = ''abc123''"
    by (simp add: GS308EP_cookie_after_def)
  from login_succeeds_iff_status_200_and_cookie
         [of ?s 200 "[]" login_page 200 cookie_headers "[]" "[]" ?t 200 "[]" login_page 200
             cookie_line "[]" "[]"]
       ps pt r k n e kt
  have a: "fst (GS308EP_CLI_login ?s)" and b: "fst (GS308EP_login ?t)"
    by blast+
  have ku'': "GS308EP_cookie_after 302 []
                (?u\<lparr>cookieSID := GS308EP_cookie_after 200 cookie_line ?u\<rparr>) \<noteq> []"
    using ku ku' by simp
  from login_succeeds_iff_status_200_and_cookie
         [of ?s 200 "[]" login_page 200 cookie_headers "[]" "[]" ?u 200 cookie_line login_page
             302 "[]" "[]" "[]"]
       pu n ku''
  have c: "fst (GS308EP_login ?u)"
    by blast
  show ?thesis
    using ps pt a b c kt ku by simp
qed

text \<open>The claim fails where the POST is answered with a status other than 200: the
  answer carries the cookie, the tool even stores it, and login fails; the library does
  not read the header of such an answer.\<close>

theorem login_fails_on_cookie_with_status_302:
  "GS308EP_CLI_extractCookie cookie_headers = ''abc123''
   \<and> \<not> fst (GS308EP_CLI_login (cli_fresh [Reply 200 [] login_page, Reply 302 cookie_headers []]))
   \<and> cookie_sid (snd (GS308EP_CLI_login
         (cli_fresh [Reply 200 [] login_page, Reply 302 cookie_headers []]))) = ''abc123''
   \<and> fst (GS308EP_extractCookie cookie_line (lib_fresh []))
   \<and> \<not> fst (GS308EP_login (lib_fresh [Reply 200 [] login_page, Reply 302 cookie_line []]))"
  by code_simp

text \<open>
  Claim C3, as amended. The fall-back to the hash of the bare password exists in the
  library only. Library: when the login page comes with status 200 and is not empty,
  login sends one POST, \<^verbatim>\<open>password=\<close> followed by MD5 of the password when no \<^verbatim>\<open>rand\<close>
  token is found in the page, and by MD5 of password and token otherwise. Tool: when the
  page comes with status 200 and a token is found, login sends one POST with MD5 of
  password and token; when no token is found it sends no POST, fails, and its last line
  is the error \<^verbatim>\<open>Failed to extract rand token\<close>.
\<close>

theorem login_digest_and_missing_rand:
  "(pending t = Reply 200 h1 b1 # rest \<and> b1 \<noteq> [] \<longrightarrow>
      post_bodies (trace (snd (GS308EP_login t))) =
        post_bodies (trace t) @
        [''password='' @
         (if GS308EP_extractRand b1 = [] then md5Hash (password t)
          else md5Hash (password t @ GS308EP_extractRand b1))])
   \<and>
   (pending s = Reply 200 h1' b1' # rest' \<longrightarrow>
      post_bodies (trace (snd (GS308EP_CLI_login s))) =
        post_bodies (trace s) @
        (if GS308EP_CLI_extractRand b1' = [] then []
         else [''password='' @ md5Hash (cli_password s @ GS308EP_CLI_extractRand b1')]) \<and>
      (GS308EP_CLI_extractRand b1' = [] \<longrightarrow>
         \<not> fst (GS308EP_CLI_login s) \<and>
         last (trace (snd (GS308EP_CLI_login s))) =
           Err ''[ERROR] Failed to extract rand token''))"
  using GS308EP_login_rand CLI_login_rand by blast

theorem login_digest_and_missing_rand_witness:
  "pending (lib_fresh [Reply 200 [] legacy_login_page, Reply 200 cookie_line []]) =
     [Reply 200 [] legacy_login_page, Reply 200 cookie_line []]
   \<and> legacy_login_page \<noteq> []
   \<and> GS308EP_extractRand legacy_login_page = []
   \<and> post_bodies (trace (snd (GS308EP_login
         (lib_fresh [Reply 200 [] legacy_login_page, Reply 200 cookie_line []])))) =
       [''password=5ebe2294ecd0e0f08eab7690d2a6ee69'']
   \<and> pending (cli_fresh [Reply 200 [] login_page, Reply 200 cookie_headers []]) =
     [Reply 200 [] login_page, Reply 200 cookie_headers []]
   \<and> GS308EP_CLI_extractRand login_page = ''1735414426''
   \<and> post_bodies (trace (snd (GS308EP_CLI_login
         (cli_fresh [Reply 200 [] login_page, Reply 200 cookie_headers []])))) =
       [''password='' @ md5Hash ''secret1735414426'']"
proof -
  let ?t = "lib_fresh [Reply 200 [] legacy_login_page, Reply 200 cookie_line []]"
  let ?s = "cli_fresh [Reply 200 [] login_page, Reply 200 cookie_headers []]"
  have pt: "pending ?t = Reply 200 [] legacy_login_page # [Reply 200 cookie_line []]"
    and ps: "pending ?s = Reply 200 [] login_page # [Reply 200 cookie_headers []]"
    and tt: "trace ?t = []" "trace ?s = []" "password ?t = ''secret''"
       "cli_password ?s = ''secret''"
    by (simp_all add: cli_fresh_def lib_fresh_def)
  have n: "legacy_login_page \<noteq> []"
    by (simp add: legacy_login_page_def)
  have r: "GS308EP_extractRand legacy_login_page = []"
    by code_simp
  have r': "GS308EP_CLI_extractRand login_page = ''1735414426''"
    by code_simp
  have m: "md5Hash ''secret'' = ''5ebe2294ecd0e0f08eab7690d2a6ee69''"
    by code_simp
  from login_digest_and_missing_rand
         [of ?t "[]" legacy_login_page "[Reply 200 cookie_line []]"
             ?s "[]" login_page "[Reply 200 cookie_headers []]"]
       pt ps tt n r r' m
  show ?thesis by simp
qed

text \<open>The claim fails in the tool: a page without the token makes login fail before any
  POST.\<close>

theorem CLI_login_fails_without_rand:
  "GS308EP_CLI_extractRand legacy_login_page = []
   \<and> \<not> fst (GS308EP_CLI_login
           (cli_fresh [Reply 200 [] legacy_login_page, Reply 200 cookie_headers []]))
   \<and> post_bodies (trace (snd (GS308EP_CLI_login
         (cli_fresh [Reply 200 [] legacy_login_page, Reply 200 cookie_headers []])))) = []"
  by code_simp

section \<open>Cookies\<close>

lemma scan_char:
  "scan [c] xs i =
     (if c \<in> set xs then Some (i + length (takeWhile (\<lambda>x. x \<noteq> c) xs)) else None)"
  by (induction xs arbitrary: i) auto

lemma str_find_char:
  "str_find s [c] pos =
     (if c \<in> set (drop pos s)
      then Some (pos + length (takeWhile (\<lambda>x. x \<noteq> c) (drop pos s))) else None)"
  by (simp add: str_find_def scan_char)

lemma indexOf_char:
  "indexOf s [c] start =
     (if c \<in> set (drop start s)
      then Some (start + length (takeWhile (\<lambda>x. x \<noteq> c) (drop start s))) else None)"
  by (simp add: indexOf_def str_find_char)

lemma take_length_takeWhile: "take (length (takeWhile P xs)) xs = takeWhile P xs"
  by (metis takeWhile_eq_take)

lemma substr_takeWhile:
  "substr s pos (length (takeWhile P (drop pos s))) = takeWhile P (drop pos s)"
  by (simp add: substr_def take_length_takeWhile)

lemma substring_takeWhile:
  assumes "c \<in> set (drop pos s)"
  shows "substring s pos (pos + length (takeWhile P (drop pos s))) = takeWhile P (drop pos s)"
proof -
  have "length (takeWhile P (drop pos s)) \<le> length s - pos"
    using length_takeWhile_le[of P "drop pos s"] by simp
  then show ?thesis
    using assms by (auto simp: substring_def substr_def take_length_takeWhile)
qed

lemma scan_prefix: "scan pat cs i = Some p \<Longrightarrow> i \<le> p \<and> prefix pat (drop (p - i) cs)"
proof (induction cs arbitrary: i)
  case Nil
  then show ?case by (simp split: if_splits)
next
  case (Cons c cs)
  show ?case
  proof (cases "prefix pat (c # cs)")
    case True
    with Cons.prems show ?thesis by simp
  next
    case False
    with Cons.prems have "scan pat cs (Suc i) = Some p" by simp
    from Cons.IH[OF this] have le: "Suc i \<le> p" and pre: "prefix pat (drop (p - Suc i) cs)"
      by simp_all
    from le have "p - i = Suc (p - Suc i)" by simp
    with le pre show ?thesis by simp
  qed
qed

lemma str_find_occurs:
  assumes "str_find s pat pos = Some p"
  shows "pos \<le> p" and "prefix pat (drop p s)" and "p + length pat \<le> length s"
proof -
  from assms have le: "pos \<le> length s" and sc: "scan pat (drop pos s) pos = Some p"
    by (simp_all add: str_find_def split: if_splits)
  from scan_prefix[OF sc] have a: "pos \<le> p" and b: "prefix pat (drop (p - pos) (drop pos s))"
    by blast+
  show "pos \<le> p" by (rule a)
  from a have "drop (p - pos) (drop pos s) = drop p s" by simp
  with b show pre: "prefix pat (drop p s)" by simp
  from pre have "length pat \<le> length (drop p s)" by (rule prefix_length_le)
  moreover have "p \<le> length s" using assms by (simp add: str_find_bounds)
  ultimately show "p + length pat \<le> length s" by simp
qed

lemma CLI_extractCookie_spec:
  "GS308EP_CLI_extractCookie headers =
     (case str_find headers ''SID='' 0 of
        None \<Rightarrow> []
      | Some p \<Rightarrow>
         (case cookie_value (drop (p + 4) headers) of
            Some v \<Rightarrow> v
          | None \<Rightarrow> drop (p + 4) headers))"
proof (cases "str_find headers ''SID='' 0")
  case None
  then show ?thesis by (simp add: GS308EP_CLI_extractCookie_def)
next
  case (Some p)
  from str_find_occurs(3)[OF Some] have len: "p + 4 \<le> length headers" by simp
  show ?thesis
    using Some len
    by (simp add: GS308EP_CLI_extractCookie_def Let_def str_find_char cookie_value_def
        substr_takeWhile) (simp add: substr_def)
qed

lemma GS308EP_extractCookie_spec:
  "GS308EP_extractCookie headers s =
     (case indexOf headers ''Set-Cookie:'' 0 of
        None \<Rightarrow> (False, s)
      | Some i \<Rightarrow>
         (case indexOf headers ''SID='' i of
            None \<Rightarrow> (False, s)
          | Some p \<Rightarrow>
             (case cookie_value (drop (p + 4) headers) of
                None \<Rightarrow> (False, s)
              | Some v \<Rightarrow> (v \<noteq> [], s\<lparr>cookieSID := v\<rparr>))))"
  by (simp add: GS308EP_extractCookie_def Let_def indexOf_char cookie_value_def
      substring_takeWhile split: option.splits)


text \<open>
  Where the implementations end the cookie value: not at the first of the three
  terminators but at the first in a fixed order of preference. Tool: when \<^verbatim>\<open>SID=\<close> occurs,
  the result is the text after its first occurrence up to the first semicolon if any
  semicolon follows; only when none follows, up to the first carriage return; only when
  neither follows, up to the first line feed; and to the end of the string when none of
  the three follows. The result is empty when \<^verbatim>\<open>SID=\<close> is absent. Library: the same
  order, but \<^verbatim>\<open>SID=\<close> is looked for after \<^verbatim>\<open>Set-Cookie:\<close>, the extraction fails when none
  of the three terminators follows, and it succeeds only on a non-empty value.
\<close>

lemma extractCookie_value_by_preference:
  "GS308EP_CLI_extractCookie headers =
     (case str_find headers ''SID='' 0 of
        None \<Rightarrow> []
      | Some p \<Rightarrow>
         (case cookie_value (drop (p + 4) headers) of
            Some v \<Rightarrow> v
          | None \<Rightarrow> drop (p + 4) headers))
   \<and>
   GS308EP_extractCookie headers' s =
     (case indexOf headers' ''Set-Cookie:'' 0 of
        None \<Rightarrow> (False, s)
      | Some i \<Rightarrow>
         (case indexOf headers' ''SID='' i of
            None \<Rightarrow> (False, s)
          | Some p \<Rightarrow>
             (case cookie_value (drop (p + 4) headers') of
                None \<Rightarrow> (False, s)
              | Some v \<Rightarrow> (v \<noteq> [], s\<lparr>cookieSID := v\<rparr>))))"
  using CLI_extractCookie_spec GS308EP_extractCookie_spec by blast

lemma extractCookie_value_by_preference_example:
  "str_find cookie_headers ''SID='' 0 = Some 29
   \<and> cookie_value (drop 33 cookie_headers) = Some ''abc123''
   \<and> GS308EP_CLI_extractCookie cookie_headers = ''abc123''
   \<and> indexOf cookie_line ''SID='' 0 = Some 12
   \<and> cookieSID (snd (GS308EP_extractCookie cookie_line (lib_fresh []))) = ''abc123''"
proof -
  have a: "str_find cookie_headers ''SID='' 0 = Some 29"
    by code_simp
  have b: "cookie_value (drop 33 cookie_headers) = Some ''abc123''"
    by code_simp
  have c: "indexOf cookie_line ''Set-Cookie:'' 0 = Some 0"
    "indexOf cookie_line ''SID='' 0 = Some 12"
    by code_simp+
  have d: "cookie_value (drop 16 cookie_line) = Some ''abc123''"
    by code_simp
  from extractCookie_value_by_preference[of cookie_headers cookie_line "lib_fresh []"]
       a b c d
  show ?thesis by simp
qed

text \<open>
  Claim C8. When \<^verbatim>\<open>SID=\<close> occurs in the headers, \<^verbatim>\<open>extractCookie\<close> returns the text after it
  up to the first semicolon, carriage return or line feed, whichever comes first. Both
  implementations look for the three one after the other over the whole rest of the
  headers, a semicolon first, so a semicolon of a later header line wins over the line
  break that ends the cookie's own line. On the headers \<open>plain_cookie_headers\<close>, where
  \<^verbatim>\<open>SID=\<close> starts at offset 12 and the first terminator after the value is the carriage
  return, the tool returns and the library stores the value together with the line break
  and the beginning of the next line.
\<close>

theorem extractCookie_runs_past_line_break:
  "str_find plain_cookie_headers ''SID='' 0 = Some 12
   \<and> cookie_value_first_terminator (drop 16 plain_cookie_headers) = ''abc123''
   \<and> GS308EP_CLI_extractCookie plain_cookie_headers =
       ''abc123'' @ [CR, LF] @ ''Content-Type: text/html''
   \<and> fst (GS308EP_extractCookie plain_cookie_headers (lib_fresh []))
   \<and> cookieSID (snd (GS308EP_extractCookie plain_cookie_headers (lib_fresh []))) =
       ''abc123'' @ [CR, LF] @ ''Content-Type: text/html''"
  by code_simp

section \<open>The power of a port\<close>

lemma indexOf_eq_str_find: "pat \<noteq> [] \<Longrightarrow> indexOf s pat start = str_find s pat start"
  by (auto simp: indexOf_def str_find_def)

lemma substring_eq_substr:
  "a \<le> e \<Longrightarrow> e \<le> length s \<Longrightarrow> substring s a e = substr s a (e - a)"
  by (auto simp: substring_def substr_def)

lemma CLI_extractPortPower_spec:
  "GS308EP_CLI_extractPortPower stof html port =
     (case power_text 2000 html (to_string port) of
        None \<Rightarrow> - 1
      | Some t \<Rightarrow> (case stof t of None \<Rightarrow> - 1 | Some v \<Rightarrow> v))"
  by (simp add: GS308EP_CLI_extractPortPower_def power_text_def span_after_def Let_def
      split: option.splits)

lemma GS308EP_extractPortPower_spec:
  "GS308EP_extractPortPower toFloat html port =
     (case power_text 1000 html (nat_to_string (unat port)) of
        None \<Rightarrow> - 1
      | Some t \<Rightarrow> toFloat (trim t))"
proof -
  have sub: "\<And>a e. str_find html ''</span>'' a = Some e \<Longrightarrow>
                substring html a e = substr html a (e - a)"
    using str_find_bounds substring_eq_substr by blast
  show ?thesis
    by (simp add: GS308EP_extractPortPower_def power_text_def span_after_def Let_def
        indexOf_eq_str_find sub split: option.splits)
qed

lemma GS308EPTest_extractPortPower_spec:
  "GS308EPTest_extractPortPower stof html port =
     (case power_text 2000 html (to_string (uint port)) of
        None \<Rightarrow> Inr (- 1)
      | Some t \<Rightarrow> (case stof t of None \<Rightarrow> Inl Stof_threw | Some v \<Rightarrow> Inr v))"
proof -
  have sub: "\<And>a e. str_find html ''</span>'' a = Some e \<Longrightarrow>
                substring html a e = substr html a (e - a)"
    using str_find_bounds substring_eq_substr by blast
  show ?thesis
    by (simp add: GS308EPTest_extractPortPower_def power_text_def span_after_def Let_def
        indexOf_eq_str_find sub split: option.splits)
qed


text \<open>
  Claim C6, as amended. The window is 2000 bytes in the tool and in the test harness but
  1000 bytes in the library, and only the tool turns a text that does not parse into
  \<open>- 1\<close>. Tool: the result is \<open>- 1\<close> when the anchor is absent, when the label \<^verbatim>\<open>ml574\<close> is
  absent or more than 2000 bytes after the anchor, when no \<^verbatim>\<open><span>\<close> with its
  \<^verbatim>\<open></span>\<close> follows the label, or when \<^verbatim>\<open>std::stof\<close> throws on the text of that span;
  otherwise it is the parsed value; nothing is thrown. Library: the same with a window of
  1000 bytes, except that the text is trimmed and handed to \<^verbatim>\<open>toFloat\<close>, whose value is
  returned whatever the text. Test harness: \<open>- 1\<close> in the first three cases, the parsed
  value when the text parses.
\<close>

theorem extractPortPower_not_found_cases:
  "GS308EP_CLI_extractPortPower stof html port =
     (case power_text 2000 html (to_string port) of
        None \<Rightarrow> - 1
      | Some t \<Rightarrow> (case stof t of None \<Rightarrow> - 1 | Some v \<Rightarrow> v))
   \<and>
   GS308EP_extractPortPower toFloat html port' =
     (case power_text 1000 html (nat_to_string (unat port')) of
        None \<Rightarrow> - 1
      | Some t \<Rightarrow> toFloat (trim t))
   \<and>
   (power_text 2000 html (to_string (uint port')) = None \<longrightarrow>
      GS308EPTest_extractPortPower stof html port' = Inr (- 1))
   \<and>
   (\<forall>t v. power_text 2000 html (to_string (uint port')) = Some t \<and> stof t = Some v \<longrightarrow>
      GS308EPTest_extractPortPower stof html port' = Inr v)"
  by (simp add: CLI_extractPortPower_spec GS308EP_extractPortPower_spec
      GS308EPTest_extractPortPower_spec)

theorem extractPortPower_not_found_cases_witness:
  "power_text 2000 power_page ''1'' = Some ''5.8''
   \<and> power_text 1000 power_page ''1'' = Some ''5.8''
   \<and> power_text 2000 power_page ''2'' = None
   \<and> stof_decimal ''5.8'' = Some (29 / 5)
   \<and> GS308EP_CLI_extractPortPower stof_decimal power_page 1 = 29 / 5
   \<and> GS308EP_extractPortPower toFloat_decimal power_page 1 = 29 / 5
   \<and> GS308EPTest_extractPortPower stof_decimal power_page 1 = Inr (29 / 5)
   \<and> GS308EPTest_extractPortPower stof_decimal power_page 2 = Inr (- 1)"
proof -
  have a: "power_text 2000 power_page ''1'' = Some ''5.8''"
    "power_text 1000 power_page ''1'' = Some ''5.8''"
    "power_text 2000 power_page ''2'' = None"
    by code_simp+
  have b: "stof_decimal ''5.8'' = Some (29 / 5)" "trim ''5.8'' = ''5.8''"
    by (simp_all add: stof_decimal_def isspace_def is_digit_def digits_value_def trim_def)
  have c: "to_string 1 = ''1''" "nat_to_string (unat (1 :: 8 word)) = ''1''"
    "to_string (uint (1 :: 8 word)) = ''1''" "to_string (uint (2 :: 8 word)) = ''2''"
    by code_simp+
  from extractPortPower_not_found_cases[of stof_decimal power_page 1 toFloat_decimal 1]
       extractPortPower_not_found_cases[of stof_decimal power_page 1 toFloat_decimal 2]
       a b c
  show ?thesis by (simp add: toFloat_decimal_def)
qed


lemma scan_replicate:
  "pat \<noteq> [] \<Longrightarrow> hd pat \<noteq> c \<Longrightarrow> scan pat (replicate n c @ zs) i = scan pat zs (i + n)"
  by (induction n arbitrary: i) (auto simp: prefix_Cons neq_Nil_conv)

text \<open>The claim fails in the library on a page whose label lies between 1000 and 2000
  bytes after the anchor: the span holds a numeral, and the library answers \<open>- 1\<close>.\<close>

theorem GS308EP_extractPortPower_window_is_1000:
  "power_text 2000 far_label_page ''1'' = Some ''5.8''
   \<and> stof_decimal ''5.8'' = Some (29 / 5)
   \<and> GS308EP_extractPortPower toFloat_decimal far_label_page 1 = - 1"
proof -
  define filler where "filler = replicate 1201 (CHR '' '')"
  have far: "far_label_page =
      ''value='' @ [dq] @ ''1'' @ [dq] @ filler @ ''ml574<span>5.8</span>''"
    by (simp add: far_label_page_def filler_def)
  have len: "length filler = 1201"
    by (simp add: filler_def)
  have skip: "\<And>pat i zs. pat \<noteq> [] \<Longrightarrow> hd pat \<noteq> CHR '' '' \<Longrightarrow>
      scan pat (filler @ zs) i = scan pat zs (i + 1201)"
    unfolding filler_def by (rule scan_replicate)
  have anchor: "str_find far_label_page (''value='' @ [dq] @ ''1'' @ [dq]) 0 = Some 0"
    by (simp add: far str_find_def)
  have label: "str_find far_label_page ''ml574'' 0 = Some 1210"
    by (simp add: far str_find_def skip)
  have span: "span_after far_label_page 1215 = Some ''5.8''"
    by (simp add: far span_after_def str_find_def substr_def len)
  have a: "power_text 2000 far_label_page ''1'' = Some ''5.8''"
    using anchor label span by (simp add: power_text_def)
  have b: "stof_decimal ''5.8'' = Some (29 / 5)"
    by (simp add: stof_decimal_def isspace_def is_digit_def digits_value_def)
  have n: "nat_to_string (Suc 0) = ''1''"
    by (simp add: nat_to_string.simps digit_char_def)
  have c: "GS308EP_extractPortPower toFloat_decimal far_label_page 1 = (- 1 :: real)"
    using anchor label by (simp add: GS308EP_extractPortPower_spec n power_text_def)
  from a b c show ?thesis by simp
qed

section \<open>The last occurrence of a label\<close>

lemma last_occurrence_later:
  assumes "last_occurrence s pat p" and "p < q"
  shows "\<not> occurs_at s pat q"
proof
  assume o: "occurs_at s pat q"
  then have "q \<le> length s" by (simp add: occurs_at_def)
  with \<open>p < q\<close> have "q \<in> set [Suc p ..< Suc (length s)]" by auto
  with assms(1) have "\<not> occurs_at s pat q" unfolding last_occurrence_def by blast
  with o show False by simp
qed

lemma scan_None: "scan pat cs i = None \<Longrightarrow> \<not> prefix pat (drop k cs)"
proof (induction cs arbitrary: i k)
  case Nil
  then show ?case by (simp split: if_splits)
next
  case (Cons c cs)
  then show ?case by (cases k) (auto split: if_splits)
qed

lemma scan_least: "scan pat cs i = Some p \<Longrightarrow> k < p - i \<Longrightarrow> \<not> prefix pat (drop k cs)"
proof (induction cs arbitrary: i k)
  case Nil
  then show ?case by (simp split: if_splits)
next
  case (Cons c cs)
  show ?case
  proof (cases "prefix pat (c # cs)")
    case True
    with Cons.prems show ?thesis by simp
  next
    case False
    with Cons.prems have sc: "scan pat cs (Suc i) = Some p" by simp
    show ?thesis
    proof (cases k)
      case 0
      with False show ?thesis by simp
    next
      case (Suc k')
      with Cons.prems(2) have "k' < p - Suc i" by simp
      from Cons.IH[OF sc this] Suc show ?thesis by simp
    qed
  qed
qed

lemma str_find_None_occurs: "str_find s pat pos = None \<Longrightarrow> pos \<le> q \<Longrightarrow> \<not> occurs_at s pat q"
proof
  assume n: "str_find s pat pos = None" and le: "pos \<le> q" and o: "occurs_at s pat q"
  from o have ql: "q \<le> length s" and pre: "prefix pat (drop q s)"
    by (simp_all add: occurs_at_def)
  from n le ql have "scan pat (drop pos s) pos = None"
    by (simp add: str_find_def)
  from scan_None[OF this, of "q - pos"] le have "\<not> prefix pat (drop q s)"
    by simp
  with pre show False by simp
qed

lemma str_find_Some_occurs:
  assumes "str_find s pat pos = Some p"
  shows "pos \<le> p" and "occurs_at s pat p"
    and "pos \<le> q \<Longrightarrow> q < p \<Longrightarrow> \<not> occurs_at s pat q"
proof -
  from assms have le: "pos \<le> length s" and sc: "scan pat (drop pos s) pos = Some p"
    by (simp_all add: str_find_def split: if_splits)
  from str_find_bounds[OF assms] show "pos \<le> p" by simp
  from str_find_bounds[OF assms] str_find_occurs(2)[OF assms] show "occurs_at s pat p"
    by (simp add: occurs_at_def)
  assume "pos \<le> q" "q < p"
  then have "q - pos < p - pos" by simp
  from scan_least[OF sc this] \<open>pos \<le> q\<close> show "\<not> occurs_at s pat q"
    by (simp add: occurs_at_def)
qed

lemma last_find_loop_last:
  "last_occurrence s pat p \<Longrightarrow> t \<le> p \<Longrightarrow> last_find_loop s pat t found = Some p"
proof (induction s pat t found rule: last_find_loop.induct)
  case (1 s pat t found)
  note lo = \<open>last_occurrence s pat p\<close> and le = \<open>t \<le> p\<close>
  from lo have occ: "occurs_at s pat p"
    by (simp add: last_occurrence_def)
  obtain p' where f: "str_find s pat t = Some p'"
  proof (cases "str_find s pat t")
    case None
    from str_find_None_occurs[OF None le] occ show ?thesis by simp
  next
    case (Some p')
    then show ?thesis using that by simp
  qed
  have p'le: "p' \<le> p"
  proof (rule ccontr)
    assume "\<not> p' \<le> p"
    then have "p < p'" by simp
    from str_find_Some_occurs(3)[OF f le this] occ show False by simp
  qed
  show ?case
  proof (cases "p' = p")
    case True
    have n: "str_find s pat (p + 1) = None"
    proof (cases "str_find s pat (p + 1)")
      case None
      then show ?thesis .
    next
      case (Some q)
      from str_find_Some_occurs(1,2)[OF Some] have "p < q" "occurs_at s pat q" by simp_all
      with last_occurrence_later[OF lo] show ?thesis by blast
    qed
    have "last_find_loop s pat t found = last_find_loop s pat (p + 1) (Some p)"
      using f True by (subst last_find_loop.simps) simp
    also have "\<dots> = Some p"
      using n by (subst last_find_loop.simps) simp
    finally show ?thesis .
  next
    case False
    with p'le have "p' + 1 \<le> p" by simp
    from "1.IH"[OF f lo this] have "last_find_loop s pat (p' + 1) (Some p') = Some p" .
    then show ?thesis
      using f by (subst last_find_loop.simps) simp
  qed
qed

lemma scan_last_none:
  "(\<And>q. \<not> prefix pat (drop q cs)) \<Longrightarrow> scan_last pat cs i found = found"
proof (induction cs arbitrary: i found)
  case Nil
  then show ?case by simp
next
  case (Cons c cs)
  from Cons.prems[of 0] have a: "\<not> prefix pat (c # cs)" by simp
  have b: "\<And>q. \<not> prefix pat (drop q cs)"
    using Cons.prems[of "Suc q" for q] by simp
  from Cons.IH[OF b] a show ?case by simp
qed

lemma scan_last_last:
  "prefix pat (drop k cs) \<Longrightarrow> k < length cs \<Longrightarrow> (\<And>q. k < q \<Longrightarrow> \<not> prefix pat (drop q cs))
   \<Longrightarrow> scan_last pat cs i found = Some (i + k)"
proof (induction cs arbitrary: i found k)
  case Nil
  then show ?case by simp
next
  case (Cons c cs)
  show ?case
  proof (cases k)
    case 0
    have b: "\<And>q. \<not> prefix pat (drop q cs)"
      using Cons.prems(3)[of "Suc q" for q] 0 by simp
    from Cons.prems(1) 0 scan_last_none[OF b] show ?thesis by simp
  next
    case (Suc k')
    have a: "prefix pat (drop k' cs)" and l: "k' < length cs"
      using Cons.prems(1,2) Suc by simp_all
    have b: "\<And>q. k' < q \<Longrightarrow> \<not> prefix pat (drop q cs)"
      using Cons.prems(3)[of "Suc q" for q] Suc by simp
    from Cons.IH[OF a l b, of "Suc i"] Suc show ?thesis by simp
  qed
qed

lemma lastIndexOf_last:
  assumes ne: "pat \<noteq> []" and lo: "last_occurrence s pat p"
  shows "lastIndexOf s pat = Some p"
proof -
  from lo have occ: "p \<le> length s" "prefix pat (drop p s)"
    by (simp_all add: last_occurrence_def occurs_at_def)
  from occ(2) ne have d: "drop p s \<noteq> []" by auto
  then have pl: "p < length s" by simp
  from occ(2) have "length pat \<le> length (drop p s)" by (rule prefix_length_le)
  then have g: "\<not> length s < length pat" by simp
  have later: "\<And>q. p < q \<Longrightarrow> \<not> prefix pat (drop q s)"
  proof -
    fix q assume pq: "p < q"
    show "\<not> prefix pat (drop q s)"
    proof (cases "q \<le> length s")
      case True
      with last_occurrence_later[OF lo pq] show ?thesis by (simp add: occurs_at_def)
    next
      case False
      with ne show ?thesis by simp
    qed
  qed
  from scan_last_last[OF occ(2) pl later, of 0 None] ne d g show ?thesis
    by (auto simp: lastIndexOf_def)
qed

lemma CLI_searchArea:
  "substr html (if 500 < a then a - 500 else 0) (a - (if 500 < a then a - 500 else 0))
   = window_before 500 html a"
  by (simp add: substr_def window_before_def drop_take)

lemma CLI_status_block_last:
  assumes lo: "last_occurrence area ''poe-power-mode'' p"
  shows "CLI_status_block area stats =
           (case span_after area p of
              None \<Rightarrow> stats
            | Some t \<Rightarrow> stats\<lparr>status := t, stats_enabled := (t = ''Delivering Power'')\<rparr>)"
  using last_find_loop_last[OF lo, of 0 None]
  by (simp add: CLI_status_block_def span_after_def Let_def split: option.splits)

lemma CLI_class_block_frame:
  "status (CLI_class_block area stats) = status stats"
  "stats_enabled (CLI_class_block area stats) = stats_enabled stats"
  "stats_port (CLI_class_block area stats) = stats_port stats"
  by (simp_all add: CLI_class_block_def Let_def split: option.splits)

lemma CLI_status_block_frame:
  "powerClass (CLI_status_block area stats) = powerClass stats"
  "stats_port (CLI_status_block area stats) = stats_port stats"
  by (simp_all add: CLI_status_block_def Let_def split: option.splits)

lemma CLI_fault_block_frame:
  "status (CLI_fault_block html a stats) = status stats"
  "stats_enabled (CLI_fault_block html a stats) = stats_enabled stats"
  "powerClass (CLI_fault_block html a stats) = powerClass stats"
  "stats_port (CLI_fault_block html a stats) = stats_port stats"
  "power_w (CLI_fault_block html a stats) = power_w stats"
  by (simp_all add: CLI_fault_block_def Let_def split: option.splits)

lemma CLI_extractPortStats_found:
  assumes "str_find html (''value='' @ [dq] @ to_string port @ [dq]) 0 = Some a"
  shows "GS308EP_CLI_extractPortStats stof html port =
     (True,
      CLI_fault_block html a
        ((CLI_class_block (window_before 500 html a)
            (CLI_status_block (window_before 500 html a) (initial_stats (word_of_int port))))
         \<lparr>voltage := extractValue stof html a ''ml570'',
           current := extractValue stof html a ''ml572'',
           power_w := GS308EP_CLI_extractPortPower stof html port,
           temperature := extractValue stof html a ''ml575''\<rparr>))"
  using assms
  by (simp add: GS308EP_CLI_extractPortStats_def Let_def CLI_searchArea del: One_nat_def)

lemma CLI_extractPortStats_status:
  assumes anchor: "str_find html (''value='' @ [dq] @ to_string port @ [dq]) 0 = Some a"
      and lo: "last_occurrence (window_before 500 html a) ''poe-power-mode'' p"
  shows "status (snd (GS308EP_CLI_extractPortStats stof html port)) =
           (case span_after (window_before 500 html a) p of None \<Rightarrow> ''Unknown'' | Some t \<Rightarrow> t)"
    and "stats_enabled (snd (GS308EP_CLI_extractPortStats stof html port)) =
           (span_after (window_before 500 html a) p = Some ''Delivering Power'')"
  by (simp_all add: CLI_extractPortStats_found[OF anchor] CLI_fault_block_frame
      CLI_class_block_frame CLI_status_block_last[OF lo] initial_stats_def
      split: option.splits)


lemma CLI_class_block_last:
  assumes lo: "last_occurrence area ''powClassShow'' p"
  shows "powerClass (CLI_class_block area stats) =
           (case class_text_at area p of
              None \<Rightarrow> powerClass stats
            | Some raw \<Rightarrow>
               if str_find raw ''ml003@'' 0 = Some 0 \<and> length raw > 7 \<and>
                  str_find raw ''@'' 6 = None
               then powerClass stats else CLI_power_class raw)"
  using last_find_loop_last[OF lo, of 0 None]
  by (simp add: CLI_class_block_def class_text_at_def CLI_power_class_def Let_def
      split: option.splits)

lemma CLI_extractPortStats_class:
  assumes anchor: "str_find html (''value='' @ [dq] @ to_string port @ [dq]) 0 = Some a"
      and lo: "last_occurrence (window_before 500 html a) ''powClassShow'' p"
  shows "powerClass (snd (GS308EP_CLI_extractPortStats stof html port)) =
           (case class_text_at (window_before 500 html a) p of
              None \<Rightarrow> ''Unknown'' | Some raw \<Rightarrow> CLI_power_class raw)"
  by (simp add: CLI_extractPortStats_found[OF anchor] CLI_fault_block_frame
      CLI_class_block_last[OF lo] CLI_status_block_frame initial_stats_def
      CLI_power_class_def split: option.splits)

lemma GS308EP_status_block_last:
  assumes lo: "last_occurrence area ''poe-power-mode'' p"
  shows "GS308EP_status_block area stats =
           (case span_after area p of
              None \<Rightarrow> stats
            | Some t \<Rightarrow> stats\<lparr>status := trim t,
                           stats_enabled := (trim t = ''Delivering Power'')\<rparr>)"
proof -
  have l: "lastIndexOf area ''poe-power-mode'' = Some p"
    using lo by (intro lastIndexOf_last) simp_all
  have sub: "\<And>a e. str_find area ''</span>'' a = Some e \<Longrightarrow>
                substring area a e = substr area a (e - a)"
    using str_find_bounds substring_eq_substr by blast
  show ?thesis
    by (simp add: GS308EP_status_block_def l span_after_def Let_def indexOf_eq_str_find sub
        split: option.splits)
qed

lemma GS308EP_class_block_last:
  assumes lo: "last_occurrence area ''powClassShow'' p"
  shows "GS308EP_class_block area stats =
           (case class_text_at area p of
              None \<Rightarrow> stats
            | Some raw \<Rightarrow>
               if startsWith (trim raw) ''ml003@''
               then (case indexOf (trim raw) ''@'' 6 of
                       None \<Rightarrow> stats
                     | Some k \<Rightarrow>
                        if k > 6
                        then stats\<lparr>powerClass := ''Class '' @ substring (trim raw) 6 k\<rparr>
                        else stats)
               else stats\<lparr>powerClass := trim raw\<rparr>)"
proof -
  have l: "lastIndexOf area ''powClassShow'' = Some p"
    using lo by (intro lastIndexOf_last) simp_all
  have sub: "\<And>a e. str_find area ''</span>'' a = Some e \<Longrightarrow>
                substring area a e = substr area a (e - a)"
    using str_find_bounds substring_eq_substr by blast
  have i: "\<And>q. indexOf area ''>'' q = str_find area ''>'' q"
    "\<And>q. indexOf area ''</span>'' q = str_find area ''</span>'' q"
    by (simp_all add: indexOf_eq_str_find)
  show ?thesis
    by (simp add: GS308EP_class_block_def l class_text_at_def Let_def i sub
        split: option.splits)
qed

lemma GS308EP_block_frames:
  "status (GS308EP_class_block area stats) = status stats"
  "stats_enabled (GS308EP_class_block area stats) = stats_enabled stats"
  "stats_port (GS308EP_class_block area stats) = stats_port stats"
  "powerClass (GS308EP_status_block area stats) = powerClass stats"
  "stats_port (GS308EP_status_block area stats) = stats_port stats"
  by (simp_all add: GS308EP_class_block_def GS308EP_status_block_def Let_def
      split: option.splits)

lemma GS308EP_extractPortStats_found:
  fixes toFloat :: "string \<Rightarrow> 'f::{zero,one,uminus}"
  assumes "str_find html (''value='' @ [dq] @ nat_to_string (unat port) @ [dq]) 0 = Some a"
  shows "fst (GS308EP_extractPortStats toFloat html port)"
    and "status (snd (GS308EP_extractPortStats toFloat html port)) =
         status (GS308EP_status_block (window_before 500 html a) (initial_stats port :: 'f PoEPortStats))"
    and "stats_enabled (snd (GS308EP_extractPortStats toFloat html port)) =
         stats_enabled (GS308EP_status_block (window_before 500 html a) (initial_stats port :: 'f PoEPortStats))"
    and "powerClass (snd (GS308EP_extractPortStats toFloat html port)) =
         powerClass (GS308EP_class_block (window_before 500 html a)
            (GS308EP_status_block (window_before 500 html a) (initial_stats port :: 'f PoEPortStats)))"
    and "stats_port (snd (GS308EP_extractPortStats toFloat html port)) = port"
    and "power_w (snd (GS308EP_extractPortStats toFloat html port)) =
         GS308EP_extractPortPower toFloat html port"
proof -
  from str_find_occurs(3)[OF assms] have lt: "a < length html" by simp
  have area: "500 < a \<Longrightarrow> substring html (a - 500) a = window_before 500 html a"
    "\<not> 500 < a \<Longrightarrow> substring html 0 a = window_before 500 html a"
    using lt by (auto simp: substring_def substr_def window_before_def drop_take)
  have i: "indexOf html (''value='' @ [dq] @ nat_to_string (unat port) @ [dq]) 0 = Some a"
    using assms by (simp add: indexOf_eq_str_find)
  show "fst (GS308EP_extractPortStats toFloat html port)"
    and "status (snd (GS308EP_extractPortStats toFloat html port)) =
         status (GS308EP_status_block (window_before 500 html a) (initial_stats port :: 'f PoEPortStats))"
    and "stats_enabled (snd (GS308EP_extractPortStats toFloat html port)) =
         stats_enabled (GS308EP_status_block (window_before 500 html a) (initial_stats port :: 'f PoEPortStats))"
    and "powerClass (snd (GS308EP_extractPortStats toFloat html port)) =
         powerClass (GS308EP_class_block (window_before 500 html a)
            (GS308EP_status_block (window_before 500 html a) (initial_stats port :: 'f PoEPortStats)))"
    and "stats_port (snd (GS308EP_extractPortStats toFloat html port)) = port"
    and "power_w (snd (GS308EP_extractPortStats toFloat html port)) =
         GS308EP_extractPortPower toFloat html port"
    using i
    by (simp_all add: GS308EP_extractPortStats_def Let_def area GS308EP_block_frames
        initial_stats_def split: option.splits del: One_nat_def)
qed

lemma GS308EP_extractPortStats_status:
  fixes toFloat :: "string \<Rightarrow> 'f::{zero,one,uminus}"
  assumes anchor: "str_find html (''value='' @ [dq] @ nat_to_string (unat port) @ [dq]) 0 = Some a"
      and lo: "last_occurrence (window_before 500 html a) ''poe-power-mode'' p"
  shows "status (snd (GS308EP_extractPortStats toFloat html port)) =
           (case span_after (window_before 500 html a) p of
              None \<Rightarrow> ''Unknown'' | Some t \<Rightarrow> trim t)"
    and "stats_enabled (snd (GS308EP_extractPortStats toFloat html port)) =
           (case span_after (window_before 500 html a) p of
              None \<Rightarrow> False | Some t \<Rightarrow> trim t = ''Delivering Power'')"
  by (simp_all add: GS308EP_extractPortStats_found[OF anchor] GS308EP_status_block_last[OF lo]
      initial_stats_def split: option.splits)

lemma GS308EP_extractPortStats_class:
  fixes toFloat :: "string \<Rightarrow> 'f::{zero,one,uminus}"
  assumes anchor: "str_find html (''value='' @ [dq] @ nat_to_string (unat port) @ [dq]) 0 = Some a"
      and lo: "last_occurrence (window_before 500 html a) ''powClassShow'' p"
  shows "powerClass (snd (GS308EP_extractPortStats toFloat html port)) =
           (case class_text_at (window_before 500 html a) p of
              None \<Rightarrow> ''Unknown'' | Some raw \<Rightarrow> GS308EP_power_class raw)"
  by (simp add: GS308EP_extractPortStats_found[OF anchor] GS308EP_class_block_last[OF lo]
      GS308EP_block_frames initial_stats_def GS308EP_power_class_def Let_def
      split: option.splits)


text \<open>
  Claim C7. Let the marker of the port be found at \<open>a\<close>. If \<open>p\<close> is the last position
  where the label \<^verbatim>\<open>poe-power-mode\<close> occurs in the 500 bytes before \<open>a\<close>, then the status
  of the record is the text of the span that follows \<open>p\<close> (\<^verbatim>\<open>Unknown\<close> without a span), and
  the port counts as enabled exactly when that text is \<^verbatim>\<open>Delivering Power\<close>. If \<open>p'\<close> is the
  last position where \<^verbatim>\<open>powClassShow\<close> occurs there, the power class is derived from the
  class text that follows \<open>p'\<close>. Earlier occurrences have no influence. This holds for the
  tool, which looks for the last occurrence with a loop, and for the library, which calls
  \<^verbatim>\<open>lastIndexOf\<close> and trims the texts.
\<close>

theorem stats_fields_come_from_last_occurrence:
  fixes stof :: "string \<Rightarrow> 'f::{zero,one,uminus} option"
    and toFloat :: "string \<Rightarrow> 'g::{zero,one,uminus}"
  shows
  "(str_find html (''value='' @ [dq] @ to_string port @ [dq]) 0 = Some a \<longrightarrow>
      (last_occurrence (window_before 500 html a) ''poe-power-mode'' p \<longrightarrow>
         status (snd (GS308EP_CLI_extractPortStats stof html port)) =
           (case span_after (window_before 500 html a) p of
              None \<Rightarrow> ''Unknown'' | Some t \<Rightarrow> t) \<and>
         stats_enabled (snd (GS308EP_CLI_extractPortStats stof html port)) =
           (span_after (window_before 500 html a) p = Some ''Delivering Power'')) \<and>
      (last_occurrence (window_before 500 html a) ''powClassShow'' p' \<longrightarrow>
         powerClass (snd (GS308EP_CLI_extractPortStats stof html port)) =
           (case class_text_at (window_before 500 html a) p' of
              None \<Rightarrow> ''Unknown'' | Some raw \<Rightarrow> CLI_power_class raw)))
   \<and>
   (str_find html (''value='' @ [dq] @ nat_to_string (unat port') @ [dq]) 0 = Some a' \<longrightarrow>
      (last_occurrence (window_before 500 html a') ''poe-power-mode'' q \<longrightarrow>
         status (snd (GS308EP_extractPortStats toFloat html port')) =
           (case span_after (window_before 500 html a') q of
              None \<Rightarrow> ''Unknown'' | Some t \<Rightarrow> trim t) \<and>
         stats_enabled (snd (GS308EP_extractPortStats toFloat html port')) =
           (case span_after (window_before 500 html a') q of
              None \<Rightarrow> False | Some t \<Rightarrow> trim t = ''Delivering Power'')) \<and>
      (last_occurrence (window_before 500 html a') ''powClassShow'' q' \<longrightarrow>
         powerClass (snd (GS308EP_extractPortStats toFloat html port')) =
           (case class_text_at (window_before 500 html a') q' of
              None \<Rightarrow> ''Unknown'' | Some raw \<Rightarrow> GS308EP_power_class raw)))"
proof (intro conjI impI)
  assume "str_find html (''value='' @ [dq] @ to_string port @ [dq]) 0 = Some a"
    and "last_occurrence (window_before 500 html a) ''poe-power-mode'' p"
  then show "status (snd (GS308EP_CLI_extractPortStats stof html port)) =
           (case span_after (window_before 500 html a) p of
              None \<Rightarrow> ''Unknown'' | Some t \<Rightarrow> t)"
    and "stats_enabled (snd (GS308EP_CLI_extractPortStats stof html port)) =
           (span_after (window_before 500 html a) p = Some ''Delivering Power'')"
    by (rule CLI_extractPortStats_status)+
next
  assume "str_find html (''value='' @ [dq] @ to_string port @ [dq]) 0 = Some a"
    and "last_occurrence (window_before 500 html a) ''powClassShow'' p'"
  then show "powerClass (snd (GS308EP_CLI_extractPortStats stof html port)) =
           (case class_text_at (window_before 500 html a) p' of
              None \<Rightarrow> ''Unknown'' | Some raw \<Rightarrow> CLI_power_class raw)"
    by (rule CLI_extractPortStats_class)
next
  assume "str_find html (''value='' @ [dq] @ nat_to_string (unat port') @ [dq]) 0 = Some a'"
    and "last_occurrence (window_before 500 html a') ''poe-power-mode'' q"
  then show "status (snd (GS308EP_extractPortStats toFloat html port')) =
           (case span_after (window_before 500 html a') q of
              None \<Rightarrow> ''Unknown'' | Some t \<Rightarrow> trim t)"
    and "stats_enabled (snd (GS308EP_extractPortStats toFloat html port')) =
           (case span_after (window_before 500 html a') q of
              None \<Rightarrow> False | Some t \<Rightarrow> trim t = ''Delivering Power'')"
    by (rule GS308EP_extractPortStats_status)+
next
  assume "str_find html (''value='' @ [dq] @ nat_to_string (unat port') @ [dq]) 0 = Some a'"
    and "last_occurrence (window_before 500 html a') ''powClassShow'' q'"
  then show "powerClass (snd (GS308EP_extractPortStats toFloat html port')) =
           (case class_text_at (window_before 500 html a') q' of
              None \<Rightarrow> ''Unknown'' | Some raw \<Rightarrow> GS308EP_power_class raw)"
    by (rule GS308EP_extractPortStats_class)
qed

theorem stats_fields_come_from_last_occurrence_witness:
  "str_find two_status_page (''value='' @ [dq] @ to_string 1 @ [dq]) 0 = Some 262
   \<and> occurs_at (window_before 500 two_status_page 262) ''poe-power-mode'' 24
   \<and> span_after (window_before 500 two_status_page 262) 24 = Some ''Disabled''
   \<and> last_occurrence (window_before 500 two_status_page 262) ''poe-power-mode'' 134
   \<and> span_after (window_before 500 two_status_page 262) 134 = Some ''Delivering Power''
   \<and> last_occurrence (window_before 500 two_status_page 262) ''powClassShow'' 199
   \<and> class_text_at (window_before 500 two_status_page 262) 199 = Some ''ml003@4@''
   \<and> status (snd (GS308EP_CLI_extractPortStats stof_decimal two_status_page 1)) =
       ''Delivering Power''
   \<and> stats_enabled (snd (GS308EP_CLI_extractPortStats stof_decimal two_status_page 1))
   \<and> powerClass (snd (GS308EP_CLI_extractPortStats stof_decimal two_status_page 1)) =
       ''Class 4''
   \<and> status (snd (GS308EP_extractPortStats toFloat_decimal two_status_page 1)) =
       ''Delivering Power''
   \<and> powerClass (snd (GS308EP_extractPortStats toFloat_decimal two_status_page 1)) =
       ''Class 4''"
proof -
  let ?w = "window_before 500 two_status_page 262"
  have a: "str_find two_status_page (''value='' @ [dq] @ to_string 1 @ [dq]) 0 = Some 262"
    "str_find two_status_page (''value='' @ [dq] @ nat_to_string (unat (1 :: 8 word)) @ [dq]) 0
       = Some 262"
    by code_simp+
  have b: "occurs_at ?w ''poe-power-mode'' 24" "span_after ?w 24 = Some ''Disabled''"
    by code_simp+
  have c: "last_occurrence ?w ''poe-power-mode'' 134"
    "span_after ?w 134 = Some ''Delivering Power''"
    by code_simp+
  have d: "last_occurrence ?w ''powClassShow'' 199"
    "class_text_at ?w 199 = Some ''ml003@4@''"
    by code_simp+
  have e: "CLI_power_class ''ml003@4@'' = ''Class 4''"
    "GS308EP_power_class ''ml003@4@'' = ''Class 4''" "trim ''Delivering Power'' = ''Delivering Power''"
    by code_simp+
  from stats_fields_come_from_last_occurrence
         [of two_status_page 1 262 134 stof_decimal 199 1 262 134 toFloat_decimal 199]
       a b c d e
  show ?thesis by simp
qed

section \<open>The statistics of all ports\<close>
















section \<open>The quotes around the token\<close>

text \<open>
  Claim C1. After the marker of the field and the token \<^verbatim>\<open>value\<close>, the extractor opens at
  whichever of the next double quote and the next single quote comes first and returns
  the text up to the next occurrence of that same character. The tool does so. The
  library does not take the nearer quote: it looks for a single quote anywhere after
  \<^verbatim>\<open>value\<close> first, and for a double quote only when there is none, and it closes in the
  same way. In \<open>two_quote_login_page\<close> the marker is at offset 29 (\<^verbatim>\<open>id\<close> at 19), \<^verbatim>\<open>value\<close>
  at 41, the next double quote at 47 and the next single quote at 85: the tool returns the
  token, the library the value of the field that follows.
\<close>

theorem GS308EP_extractRand_prefers_single_quote:
  "str_find two_quote_login_page (''name='' @ [dq] @ ''rand'' @ [dq]) 0 = Some 29
   \<and> indexOf two_quote_login_page (''id='' @ [dq] @ ''rand'' @ [dq]) 0 = Some 19
   \<and> str_find two_quote_login_page ''value'' 29 = Some 41
   \<and> str_find two_quote_login_page [dq] 41 = Some 47
   \<and> str_find two_quote_login_page [sq] 41 = Some 85
   \<and> GS308EP_CLI_extractRand two_quote_login_page = ''1735414426''
   \<and> GS308EP_extractRand two_quote_login_page = ''Login''"
  by code_simp

section \<open>Authenticated sessions and their cookie\<close>

text \<open>When login succeeds, the session is authenticated and holds a cookie, in the
  library and in the tool; and the tool never replaces a cookie by an empty one.\<close>

lemma GS308EP_login_cookie:
  "fst (GS308EP_login t) \<Longrightarrow>
   authenticated (snd (GS308EP_login t)) \<and> cookieSID (snd (GS308EP_login t)) \<noteq> []"
  by (auto simp: GS308EP_login_def Let_def split: prod.splits if_splits)

lemma CLI_login_cookie:
  "fst (GS308EP_CLI_login s) \<Longrightarrow>
   cli_authenticated (snd (GS308EP_CLI_login s)) \<and> cookie_sid (snd (GS308EP_CLI_login s)) \<noteq> []"
  by (auto simp: GS308EP_CLI_login_def Let_def log_fields split: prod.splits if_splits)

lemma CLI_httpGet_keeps_cookie:
  "cookie_sid s \<noteq> [] \<Longrightarrow> cookie_sid (snd (GS308EP_CLI_httpGet path s)) \<noteq> []"
  unfolding GS308EP_CLI_httpGet_def transport_def log_def emit_def error_def
  by (simp add: Let_def split: list.splits reply.splits)

lemma CLI_httpPost_keeps_cookie:
  "cookie_sid s \<noteq> [] \<Longrightarrow> cookie_sid (snd (GS308EP_CLI_httpPost path data s)) \<noteq> []"
  unfolding GS308EP_CLI_httpPost_def transport_def log_def emit_def error_def
  by (simp add: Let_def split: list.splits reply.splits)

text \<open>
  Claim C10. No reachable state is authenticated with an empty cookie. At the return of
  a successful login the cookie is not empty (\<open>GS308EP_login_cookie\<close>, \<open>CLI_login_cookie\<close>),
  and the tool keeps it so. The library does not: \<^verbatim>\<open>GS308EP::extractCookie\<close> stores the
  value it finds before it tests that the value is not empty. A library session logs in
  and holds the cookie \<^verbatim>\<open>abc123\<close>; the answer to its next request, the GET of
  \<^verbatim>\<open>turnOffPoEPort\<close>, comes with status 200 and the header \<^verbatim>\<open>Set-Cookie: SID=; Max-Age=0\<close>;
  the extraction fails, and the session is left authenticated with an empty cookie.
\<close>

theorem GS308EP_authenticated_with_empty_cookie:
  "fst (GS308EP_login (lib_fresh [Reply 200 [] login_page, Reply 200 cookie_line [],
                                  Reply 200 expired_cookie_line config_page, Reply 200 [] []]))
   \<and> cookieSID (snd (GS308EP_login
         (lib_fresh [Reply 200 [] login_page, Reply 200 cookie_line [],
                     Reply 200 expired_cookie_line config_page, Reply 200 [] []]))) = ''abc123''
   \<and> \<not> fst (GS308EP_extractCookie expired_cookie_line (lib_fresh []))
   \<and> fst (GS308EP_turnOffPoEPort 1 (snd (GS308EP_login
         (lib_fresh [Reply 200 [] login_page, Reply 200 cookie_line [],
                     Reply 200 expired_cookie_line config_page, Reply 200 [] []]))))
   \<and> authenticated (snd (GS308EP_turnOffPoEPort 1 (snd (GS308EP_login
         (lib_fresh [Reply 200 [] login_page, Reply 200 cookie_line [],
                     Reply 200 expired_cookie_line config_page, Reply 200 [] []])))))
   \<and> cookieSID (snd (GS308EP_turnOffPoEPort 1 (snd (GS308EP_login
         (lib_fresh [Reply 200 [] login_page, Reply 200 cookie_line [],
                     Reply 200 expired_cookie_line config_page, Reply 200 [] []]))))) = []"
  by code_simp

end
